theory Spec2Isabelle
  imports Complex_Main "HOL-Library.Stream"
begin

section \<open>Python values and exceptions\<close>

text \<open>
  The five scripts are straight-line Python (one of them ends in a read loop) over a
  third-party retrieval library. The exceptions that the modelled statements can raise:
  \<open>ZeroDivisionError\<close> from the float division of \<open>05_basic_Agent.py\<close>,
  \<open>EOFError\<close> from the builtin \<open>input\<close> at end of standard input, and whatever
  the wrapped library or its environment raises (a missing directory, a missing
  credential, a failed network call), kept by name in \<open>LibraryError\<close>.
\<close>

datatype error = ZeroDivisionError | EOFError | LibraryError string

subsection \<open>Floats\<close>

text \<open>
  A Python \<open>float\<close> is an IEEE 754 binary64: a finite number, one of the two
  infinities, or a NaN. A finite float is kept by the real number it denotes (the two
  signed zeros are both \<open>Finite 0\<close>: Python's \<open>==\<close> does not tell them apart, and the
  sign of a zero shows only in a division by zero, which Python raises on). A NaN is kept
  with its sign bit and its payload, which \<open>math.copysign\<close> and \<open>struct.pack\<close> show:
  there are many NaNs, and the operators do not treat them alike.

  An arithmetic operation on finite floats returns the exact real result rounded to
  binary64. The rounding function (round to nearest, ties to even, overflow to an
  infinity) is a table of the hardware, not of this repository: it is the parameter
  \<open>R\<close> of every operation, and nothing below depends on which function it is.
\<close>

datatype pyfloat = Finite real | PosInf | NegInf | NaN (nan_sign: bool) (nan_payload: nat)

type_synonym rounding = "real \<Rightarrow> pyfloat"

fun is_nan :: "pyfloat \<Rightarrow> bool" where
  "is_nan (NaN s p) = True"
| "is_nan a = False"

text \<open>
  Python's \<open>==\<close> on floats: a NaN is equal to nothing, not even to itself; other floats
  are equal when they are the same number.
\<close>

fun float_eq :: "pyfloat \<Rightarrow> pyfloat \<Rightarrow> bool" where
  "float_eq (NaN s p) b = False"
| "float_eq a (NaN s p) = False"
| "float_eq a b = (a = b)"

text \<open>
  The NaN that an invalid operation on numbers makes (\<open>inf - inf\<close>, \<open>0 * inf\<close>): on
  x86-64 the quiet NaN with the sign bit set and an empty payload.
\<close>

definition default_nan :: pyfloat where
  "default_nan = NaN True 0"

text \<open>
  An operation with a NaN operand returns that NaN, sign and payload kept; when both
  operands are NaN it returns the first one. So the result of \<open>a + b\<close> and of \<open>a * b\<close>
  depends on the order of two NaN operands.
\<close>

fun float_add :: "rounding \<Rightarrow> pyfloat \<Rightarrow> pyfloat \<Rightarrow> pyfloat" where
  "float_add R (NaN s p) b = NaN s p"
| "float_add R a (NaN s p) = NaN s p"
| "float_add R PosInf NegInf = default_nan"
| "float_add R NegInf PosInf = default_nan"
| "float_add R PosInf b = PosInf"
| "float_add R NegInf b = NegInf"
| "float_add R a PosInf = PosInf"
| "float_add R a NegInf = NegInf"
| "float_add R (Finite x) (Finite y) = R (x + y)"

fun float_neg :: "pyfloat \<Rightarrow> pyfloat" where
  "float_neg (NaN s p) = NaN (\<not> s) p"
| "float_neg PosInf = NegInf"
| "float_neg NegInf = PosInf"
| "float_neg (Finite x) = Finite (- x)"

fun float_sub :: "rounding \<Rightarrow> pyfloat \<Rightarrow> pyfloat \<Rightarrow> pyfloat" where
  "float_sub R (NaN s p) b = NaN s p"
| "float_sub R a (NaN s p) = NaN s p"
| "float_sub R PosInf PosInf = default_nan"
| "float_sub R NegInf NegInf = default_nan"
| "float_sub R PosInf b = PosInf"
| "float_sub R NegInf b = NegInf"
| "float_sub R a PosInf = NegInf"
| "float_sub R a NegInf = PosInf"
| "float_sub R (Finite x) (Finite y) = R (x - y)"

text \<open>The sign of a number, as \<open>-1\<close>, \<open>0\<close> or \<open>1\<close>; a NaN is no number.\<close>

fun float_sgn :: "pyfloat \<Rightarrow> int option" where
  "float_sgn (NaN s p) = None"
| "float_sgn PosInf = Some 1"
| "float_sgn NegInf = Some (- 1)"
| "float_sgn (Finite x) = Some (if x < 0 then - 1 else if x = 0 then 0 else 1)"

definition signed_inf :: "int \<Rightarrow> pyfloat" where
  "signed_inf s = (if s < 0 then NegInf else if s = 0 then default_nan else PosInf)"

fun float_mul :: "rounding \<Rightarrow> pyfloat \<Rightarrow> pyfloat \<Rightarrow> pyfloat" where
  "float_mul R (Finite x) (Finite y) = R (x * y)"
| "float_mul R (NaN s p) b = NaN s p"
| "float_mul R a (NaN s p) = NaN s p"
| "float_mul R a b =
     (case (float_sgn a, float_sgn b) of
        (Some s, Some t) \<Rightarrow> signed_inf (s * t)
      | _ \<Rightarrow> default_nan)"

text \<open>
  The hardware division. At a zero divisor IEEE 754 returns an infinity or a NaN;
  Python never gets there (see \<open>py_truediv\<close>).
\<close>

fun float_div :: "rounding \<Rightarrow> pyfloat \<Rightarrow> pyfloat \<Rightarrow> pyfloat" where
  "float_div R (NaN s p) b = NaN s p"
| "float_div R a (NaN s p) = NaN s p"
| "float_div R (Finite x) (Finite y) =
     (if y = 0 then signed_inf (if x < 0 then - 1 else if x = 0 then 0 else 1)
      else R (x / y))"
| "float_div R (Finite x) b = Finite 0"
| "float_div R a (Finite y) =
     (case float_sgn a of
        Some s \<Rightarrow> signed_inf (s * (if y < 0 then - 1 else 1))
      | None \<Rightarrow> default_nan)"
| "float_div R a b = default_nan"

text \<open>
  Python's \<open>a / b\<close> on floats (\<open>float_div\<close> of CPython's \<open>floatobject.c\<close>): the divisor is
  compared with \<open>0.0\<close> first, and the division raises \<open>ZeroDivisionError\<close> when it is
  zero, whatever the dividend (also an infinity or a NaN); otherwise the hardware divides.
  The operators \<open>*\<close>, \<open>+\<close> and \<open>-\<close> on floats never raise.
\<close>

definition py_truediv :: "rounding \<Rightarrow> pyfloat \<Rightarrow> pyfloat \<Rightarrow> error + pyfloat" where
  "py_truediv R a b = (if b = Finite 0 then Inl ZeroDivisionError else Inr (float_div R a b))"

section \<open>The arithmetic tools of 05_basic_Agent.py\<close>

text \<open>
  \<^verbatim>\<open>
  def multiply(a: float, b: float) -> float:
      return a * b
  def add(a: float, b: float) -> float:
      return a + b
  def subtract(a: float, b: float) -> float:
      return a - b
  def divide(a: float, b: float) -> float:
      return a / b
  \<close>
  Each tool is one \<open>return\<close> of one operator: no global is read or written, nothing is
  caught. A tool returns a float or raises, so its result is \<open>error + pyfloat\<close>.
\<close>

definition multiply :: "rounding \<Rightarrow> pyfloat \<Rightarrow> pyfloat \<Rightarrow> error + pyfloat" where
  "multiply R a b = Inr (float_mul R a b)"

definition add :: "rounding \<Rightarrow> pyfloat \<Rightarrow> pyfloat \<Rightarrow> error + pyfloat" where
  "add R a b = Inr (float_add R a b)"

definition subtract :: "rounding \<Rightarrow> pyfloat \<Rightarrow> pyfloat \<Rightarrow> error + pyfloat" where
  "subtract R a b = Inr (float_sub R a b)"

definition divide_fn :: "rounding \<Rightarrow> pyfloat \<Rightarrow> pyfloat \<Rightarrow> error + pyfloat" where
  "divide_fn R a b = py_truediv R a b"

section \<open>The wrapped library\<close>

text \<open>
  Everything else the scripts do is a call into code that is not theirs: an import, a
  constructor or function of the retrieval library, a method of an object it returned,
  the builtins \<open>input\<close> and \<open>print\<close>. A value is a literal of the script, a
  function the script defines (by name), or a reference to a library object.
\<close>

datatype pyval =
    PNone
  | PBool bool
  | PInt int
  | PFloatLit string
  | PStr string
  | PFun string
  | PList "pyval list"
  | PRef nat

text \<open>
  \<open>Import m ns\<close> is \<open>from m import ns\<close> (\<open>import m\<close> when \<open>ns\<close> is empty),
  \<open>Call f args kwargs\<close> a call of the function, class or class method \<open>f\<close>, and
  \<open>Method obj m args kwargs\<close> the call \<open>obj.m(args, kwargs)\<close>.
\<close>

datatype call =
    Import string "string list"
  | Call string "pyval list" "(string \<times> pyval) list"
  | Method pyval string "pyval list" "(string \<times> pyval) list"

text \<open>
  One call as it happened: the call, the number of network requests the library made
  while the script was blocked in it, and what it returned or raised.
\<close>

datatype event = Event (ev_call: call) (ev_requests: nat) (ev_result: "error + pyval")

text \<open>
  The library, the remote model and the file system behind it are a parameter: a state
  \<open>'x\<close> of their own, what a call does in that state (result, network requests made,
  new state; the state may change also when the call raises), and the text that
  \<open>str\<close> gives for a library object.
\<close>

record 'x library =
  invoke :: "'x \<Rightarrow> call \<Rightarrow> (error + pyval) \<times> nat \<times> 'x"
  render :: "'x \<Rightarrow> pyval \<Rightarrow> string"

text \<open>
  The state of one run: what is left of standard input (each element one \<open>input()\<close>:
  a line, or \<open>None\<close> at end of input), what the script's own \<open>print\<close> and
  \<open>input\<close> statements have written to standard output, the library's state, and
  the calls made so far.
\<close>

record 'x world =
  stdin :: "string option stream"
  stdout :: "string list"
  ext :: 'x
  events :: "event list"

type_synonym 'x py = "'x world \<Rightarrow> (error + pyval) \<times> 'x world"

text \<open>
  Statements in sequence: a statement that raises ends the run with its exception, since
  no script has a \<open>try\<close>.
\<close>

definition py_bind :: "'x py \<Rightarrow> (pyval \<Rightarrow> 'x py) \<Rightarrow> 'x py" where
  "py_bind m f w = (case m w of (Inl e, w') \<Rightarrow> (Inl e, w') | (Inr v, w') \<Rightarrow> f v w')"

definition lib_call :: "'x library \<Rightarrow> call \<Rightarrow> 'x py" where
  "lib_call L c w =
     (case invoke L (ext w) c of
        (r, n, x) \<Rightarrow> (r, w\<lparr>ext := x, events := events w @ [Event c n r]\<rparr>))"

definition py_str :: "'x library \<Rightarrow> 'x \<Rightarrow> pyval \<Rightarrow> string" where
  "py_str L x v = (case v of PStr s \<Rightarrow> s | _ \<Rightarrow> render L x v)"

text \<open>\<open>print(v)\<close> writes \<open>str(v)\<close> and a newline.\<close>

definition py_print :: "'x library \<Rightarrow> pyval \<Rightarrow> 'x py" where
  "py_print L v w = (Inr PNone, w\<lparr>stdout := stdout w @ [py_str L (ext w) v @ [CHR 0x0A]]\<rparr>)"

text \<open>
  \<open>input(prompt)\<close> writes the prompt, then returns the next line of standard input
  without its newline, or raises \<open>EOFError\<close> at end of input.
\<close>

definition py_input :: "string \<Rightarrow> 'x py" where
  "py_input prompt w =
     (let c = Call ''input'' [PStr prompt] [];
          w1 = w\<lparr>stdout := stdout w @ [prompt]\<rparr>
      in case shd (stdin w1) of
           None \<Rightarrow> (Inl EOFError, w1\<lparr>events := events w1 @ [Event c 0 (Inl EOFError)]\<rparr>)
         | Some line \<Rightarrow>
             (Inr (PStr line),
              w1\<lparr>stdin := stl (stdin w1),
                 events := events w1 @ [Event c 0 (Inr (PStr line))]\<rparr>))"

section \<open>The scripts\<close>

definition question :: string where
  "question = ''What are the design goals and give details about it please.''"

subsection \<open>01_simple_rag.py\<close>

definition script01 :: "'x library \<Rightarrow> 'x py" where
  "script01 L =
     py_bind (lib_call L (Import ''llama_index.core'' [''VectorStoreIndex'', ''SimpleDirectoryReader''])) (\<lambda>_.
     py_bind (lib_call L (Import ''dotenv'' [''load_dotenv''])) (\<lambda>_.
     py_bind (lib_call L (Import ''llama_index.llms.openai'' [''OpenAI''])) (\<lambda>_.
     py_bind (lib_call L (Call ''load_dotenv'' [] [])) (\<lambda>_.
     py_bind (lib_call L (Call ''OpenAI'' [] [(''model'', PStr ''gpt-3.5-turbo'')])) (\<lambda>_.
     py_bind (lib_call L (Call ''SimpleDirectoryReader'' [PStr ''pdf/''] [])) (\<lambda>reader.
     py_bind (lib_call L (Method reader ''load_data'' [] [])) (\<lambda>documents.
     py_bind (lib_call L (Call ''VectorStoreIndex.from_documents'' [documents] [])) (\<lambda>index.
     py_bind (lib_call L (Method index ''as_query_engine'' [] [])) (\<lambda>query_engine.
     py_bind (lib_call L (Method query_engine ''query'' [PStr question] [])) (\<lambda>response.
     py_print L response))))))))))"

subsection \<open>02_rag_using_chat_engine.py\<close>

definition script02 :: "'x library \<Rightarrow> 'x py" where
  "script02 L =
     py_bind (lib_call L (Import ''llama_index.core'' [''VectorStoreIndex'', ''SimpleDirectoryReader''])) (\<lambda>_.
     py_bind (lib_call L (Import ''llama_index.llms.openai'' [''OpenAI''])) (\<lambda>_.
     py_bind (lib_call L (Import ''dotenv'' [''load_dotenv''])) (\<lambda>_.
     py_bind (lib_call L (Import ''os'' [])) (\<lambda>_.
     py_bind (lib_call L (Call ''load_dotenv'' [] [])) (\<lambda>_.
     py_bind (lib_call L (Call ''OpenAI'' [] [(''model'', PStr ''gpt-3.5-turbo'')])) (\<lambda>llm.
     py_bind (lib_call L (Call ''SimpleDirectoryReader'' [PStr ''pdf/''] [])) (\<lambda>reader.
     py_bind (lib_call L (Method reader ''load_data'' [] [])) (\<lambda>data.
     py_bind (lib_call L (Call ''VectorStoreIndex.from_documents'' [data] [])) (\<lambda>index.
     py_bind (lib_call L (Method index ''as_chat_engine'' []
        [(''chat_mode'', PStr ''best''), (''llm'', llm), (''verbose'', PBool True)])) (\<lambda>chat_engine.
     py_bind (lib_call L (Method chat_engine ''chat'' [PStr question] [])) (\<lambda>response.
     py_print L response)))))))))))"

subsection \<open>03_rag_chatbot.py\<close>

text \<open>
  \<^verbatim>\<open>
  while True:
      text_input = input("User: ")
      if text_input == "exit":
          break
      response = chat_engine.chat(text_input)
      print(f"Agent: {response}")
  \<close>
  The loop has no bound of its own: it returns \<open>None\<close> when it runs forever.
\<close>

partial_function (option) chat_loop ::
    "'x library \<Rightarrow> pyval \<Rightarrow> 'x world \<Rightarrow> ((error + pyval) \<times> 'x world) option" where
  "chat_loop L chat_engine w =
     (case py_input ''User: '' w of
        (Inl e, w1) \<Rightarrow> Some (Inl e, w1)
      | (Inr text_input, w1) \<Rightarrow>
          if text_input = PStr ''exit'' then Some (Inr PNone, w1)
          else (case lib_call L (Method chat_engine ''chat'' [text_input] []) w1 of
                  (Inl e, w2) \<Rightarrow> Some (Inl e, w2)
                | (Inr response, w2) \<Rightarrow>
                    (case py_print L (PStr (''Agent: '' @ py_str L (ext w2) response)) w2 of
                       (Inl e, w3) \<Rightarrow> Some (Inl e, w3)
                     | (Inr _, w3) \<Rightarrow> chat_loop L chat_engine w3)))"

declare chat_loop.simps [code]

definition script03_setup :: "'x library \<Rightarrow> 'x py" where
  "script03_setup L =
     py_bind (lib_call L (Import ''llama_index.core'' [''VectorStoreIndex'', ''SimpleDirectoryReader''])) (\<lambda>_.
     py_bind (lib_call L (Import ''llama_index.llms.openai'' [''OpenAI''])) (\<lambda>_.
     py_bind (lib_call L (Import ''llama_index.agent.openai'' [''OpenAIAgent''])) (\<lambda>_.
     py_bind (lib_call L (Import ''dotenv'' [''load_dotenv''])) (\<lambda>_.
     py_bind (lib_call L (Import ''os'' [])) (\<lambda>_.
     py_bind (lib_call L (Call ''load_dotenv'' [] [])) (\<lambda>_.
     py_bind (lib_call L (Call ''OpenAI'' []
        [(''model'', PStr ''gpt-3.5-turbo''), (''temperature'', PInt 0)])) (\<lambda>llm.
     py_bind (lib_call L (Call ''SimpleDirectoryReader'' [] [(''input_dir'', PStr ''pdf/'')])) (\<lambda>reader.
     py_bind (lib_call L (Method reader ''load_data'' [] [])) (\<lambda>data.
     py_bind (lib_call L (Call ''VectorStoreIndex.from_documents'' [data] [])) (\<lambda>index.
     lib_call L (Method index ''as_chat_engine'' []
        [(''chat_mode'', PStr ''condense_question''), (''verbose'', PBool True)])))))))))))"

definition script03 :: "'x library \<Rightarrow> 'x world \<Rightarrow> ((error + pyval) \<times> 'x world) option" where
  "script03 L w =
     (case script03_setup L w of
        (Inl e, w') \<Rightarrow> Some (Inl e, w')
      | (Inr chat_engine, w') \<Rightarrow> chat_loop L chat_engine w')"

subsection \<open>04_custom_rag.py\<close>

definition script04 :: "'x library \<Rightarrow> 'x py" where
  "script04 L =
     py_bind (lib_call L (Import ''os'' [])) (\<lambda>_.
     py_bind (lib_call L (Import ''dotenv'' [''load_dotenv''])) (\<lambda>_.
     py_bind (lib_call L (Import ''llama_index.core''
        [''SimpleDirectoryReader'', ''VectorStoreIndex'', ''StorageContext''])) (\<lambda>_.
     py_bind (lib_call L (Import ''llama_index.vector_stores.chroma'' [''ChromaVectorStore''])) (\<lambda>_.
     py_bind (lib_call L (Import ''llama_index.llms.openai'' [''OpenAI''])) (\<lambda>_.
     py_bind (lib_call L (Import ''chromadb'' [])) (\<lambda>_.
     py_bind (lib_call L (Call ''load_dotenv'' [] [])) (\<lambda>_.
     py_bind (lib_call L (Call ''SimpleDirectoryReader'' [PStr ''pdf/''] [])) (\<lambda>reader.
     py_bind (lib_call L (Method reader ''load_data'' [] [])) (\<lambda>documents.
     py_bind (lib_call L (Call ''chromadb.PersistentClient'' [] [(''path'', PStr ''./chroma_db'')])) (\<lambda>db.
     py_bind (lib_call L (Method db ''get_or_create_collection'' [PStr ''quickstart''] [])) (\<lambda>chroma_collection.
     py_bind (lib_call L (Call ''ChromaVectorStore'' [] [(''chroma_collection'', chroma_collection)])) (\<lambda>vector_store.
     py_bind (lib_call L (Call ''StorageContext.from_defaults'' [] [(''vector_store'', vector_store)])) (\<lambda>storage_context.
     py_bind (lib_call L (Call ''OpenAI'' []
        [(''model'', PStr ''gpt-3.5-turbo''), (''temperature'', PFloatLit ''0.1''),
         (''max_tokens'', PInt 512)])) (\<lambda>llm.
     py_bind (lib_call L (Call ''VectorStoreIndex.from_documents'' [documents]
        [(''storage_context'', storage_context), (''llm'', llm)])) (\<lambda>index.
     py_bind (lib_call L (Method index ''as_query_engine'' [] [(''llm'', llm)])) (\<lambda>query_engine.
     py_bind (lib_call L (Method query_engine ''query'' [PStr question] [])) (\<lambda>response.
     py_bind (py_print L (PStr ''***********'')) (\<lambda>_.
     py_print L response))))))))))))))))))"

subsection \<open>05_basic_Agent.py\<close>

text \<open>
  The four \<open>def\<close> statements bind the tools of the previous section; they are handed
  to the library by name.
\<close>

definition agent_question :: string where
  "agent_question = ''What is 20+(2*4) / (5 - 1)? Use a tool to calculate every step.''"

definition script05 :: "'x library \<Rightarrow> 'x py" where
  "script05 L =
     py_bind (lib_call L (Import ''os'' [])) (\<lambda>_.
     py_bind (lib_call L (Import ''llama_index.core'' [])) (\<lambda>_.
     py_bind (lib_call L (Import ''llama_index.core.agent'' [''ReActAgent''])) (\<lambda>_.
     py_bind (lib_call L (Import ''llama_index.llms.openai'' [''OpenAI''])) (\<lambda>_.
     py_bind (lib_call L (Import ''llama_index.core.tools'' [''FunctionTool''])) (\<lambda>_.
     py_bind (lib_call L (Import ''dotenv'' [''load_dotenv''])) (\<lambda>_.
     py_bind (lib_call L (Call ''load_dotenv'' [] [])) (\<lambda>_.
     py_bind (lib_call L (Call ''OpenAI'' []
        [(''model'', PStr ''gpt-3.5-turbo''), (''temperature'', PInt 0)])) (\<lambda>llm.
     py_bind (lib_call L (Call ''FunctionTool.from_defaults'' [] [(''fn'', PFun ''multiply'')])) (\<lambda>multiply_tool.
     py_bind (lib_call L (Call ''FunctionTool.from_defaults'' [] [(''fn'', PFun ''add'')])) (\<lambda>add_tool.
     py_bind (lib_call L (Call ''FunctionTool.from_defaults'' [] [(''fn'', PFun ''subtract'')])) (\<lambda>sub_tool.
     py_bind (lib_call L (Call ''FunctionTool.from_defaults'' [] [(''fn'', PFun ''divide'')])) (\<lambda>divide_tool.
     py_bind (lib_call L (Call ''ReActAgent.from_tools''
        [PList [multiply_tool, add_tool, sub_tool, divide_tool]]
        [(''llm'', llm), (''verbose'', PBool True)])) (\<lambda>agent.
     py_bind (lib_call L (Method agent ''chat'' [PStr agent_question] [])) (\<lambda>response.
     py_print L response))))))))))))))"

subsection \<open>Running a script\<close>

datatype script = S01 | S02 | S03 | S04 | S05

definition start :: "string option stream \<Rightarrow> 'x \<Rightarrow> 'x world" where
  "start inp x = \<lparr>stdin = inp, stdout = [], ext = x, events = []\<rparr>"

text \<open>A run returns how the script ended and the final state, or \<open>None\<close> when it never ends.\<close>

fun run_script ::
    "script \<Rightarrow> 'x library \<Rightarrow> string option stream \<Rightarrow> 'x \<Rightarrow> ((error + pyval) \<times> 'x world) option" where
  "run_script S01 L inp x = Some (script01 L (start inp x))"
| "run_script S02 L inp x = Some (script02 L (start inp x))"
| "run_script S03 L inp x = script03 L (start inp x)"
| "run_script S04 L inp x = Some (script04 L (start inp x))"
| "run_script S05 L inp x = Some (script05 L (start inp x))"

section \<open>Vocabulary of the properties\<close>

type_synonym 'x run = "((error + pyval) \<times> 'x world) option"

text \<open>A run is completed when the script reached its end without an exception.\<close>

definition completed :: "'x run \<Rightarrow> bool" where
  "completed r = (case r of Some (Inr v, w) \<Rightarrow> True | _ \<Rightarrow> False)"

text \<open>How a run ended: with the exception that went uncaught, or normally.\<close>

definition outcome_of :: "'x run \<Rightarrow> (error + pyval) option" where
  "outcome_of r = map_option fst r"

definition events_of :: "'x run \<Rightarrow> event list" where
  "events_of r = (case r of Some (res, w) \<Rightarrow> events w | None \<Rightarrow> [])"

definition calls_made :: "'x run \<Rightarrow> call list" where
  "calls_made r = map ev_call (events_of r)"


text \<open>What a call asks of the library, read off its name and arguments.\<close>

fun kwarg :: "string \<Rightarrow> call \<Rightarrow> pyval option" where
  "kwarg k (Call f args kw) = map_of kw k"
| "kwarg k (Method obj m args kw) = map_of kw k"
| "kwarg k (Import m ns) = None"

text \<open>\<open>SimpleDirectoryReader(d)\<close> or \<open>SimpleDirectoryReader(input_dir=d)\<close>.\<close>

fun reads_dir :: "string \<Rightarrow> call \<Rightarrow> bool" where
  "reads_dir d (Call f args kw) =
     (f = ''SimpleDirectoryReader'' \<and> (args = [PStr d] \<or> map_of kw ''input_dir'' = Some (PStr d)))"
| "reads_dir d (Method obj m args kw) = False"
| "reads_dir d (Import m ns) = False"

fun is_load_data :: "call \<Rightarrow> bool" where
  "is_load_data (Method obj m args kw) = (m = ''load_data'')"
| "is_load_data (Call f args kw) = False"
| "is_load_data (Import m ns) = False"

fun builds_index :: "call \<Rightarrow> bool" where
  "builds_index (Call f args kw) = (f = ''VectorStoreIndex.from_documents'')"
| "builds_index (Method obj m args kw) = False"
| "builds_index (Import m ns) = False"

text \<open>A query of the index or a message to a chat engine or agent: the calls that reach the remote model with a question.\<close>

fun is_query :: "call \<Rightarrow> bool" where
  "is_query (Method obj m args kw) = (m = ''query'' \<or> m = ''chat'')"
| "is_query (Call f args kw) = False"
| "is_query (Import m ns) = False"

text \<open>
  The calls by which these libraries are asked for a store on disk: the on-disk client of
  the vector database, and a \<open>persist\<close> method of an index or storage context.
\<close>

fun persisting :: "call \<Rightarrow> bool" where
  "persisting (Call f args kw) = (f = ''chromadb.PersistentClient'')"
| "persisting (Method obj m args kw) = (m = ''persist'')"
| "persisting (Import m ns) = False"

text \<open>An index built into a store handed to it, rather than into the default in-memory one.\<close>

definition stores_index :: "call \<Rightarrow> bool" where
  "stores_index c = (builds_index c \<and> kwarg ''storage_context'' c \<noteq> None)"

text \<open>A call that raised.\<close>

definition raised :: "event \<Rightarrow> bool" where
  "raised e = isl (ev_result e)"

text \<open>
  An exception went uncaught: no call before the last one raised, and the run ended with
  an exception exactly when its last call raised it.
\<close>

definition propagated :: "event list \<Rightarrow> error + pyval \<Rightarrow> bool" where
  "propagated evs r =
     (list_all (\<lambda>e. \<not> raised e) (butlast evs) \<and>
      (case r of
         Inl e \<Rightarrow> evs \<noteq> [] \<and> ev_result (last evs) = Inl e
       | Inr v \<Rightarrow> list_all (\<lambda>e. \<not> raised e) evs))"

text \<open>
  Two properties of a statement, for reasoning statement by statement: run where nothing
  has raised yet, it leaves its exception uncaught; and it makes only calls of a given
  kind.
\<close>

definition uncaught :: "'x py \<Rightarrow> bool" where
  "uncaught m =
     (\<forall>w r w'. list_all (\<lambda>e. \<not> raised e) (events w) \<longrightarrow> m w = (r, w') \<longrightarrow>
        propagated (events w') r)"

definition calls_only :: "(call \<Rightarrow> bool) \<Rightarrow> 'x py \<Rightarrow> bool" where
  "calls_only Q m =
     (\<forall>w r w'. list_all Q (map ev_call (events w)) \<longrightarrow> m w = (r, w') \<longrightarrow>
        list_all Q (map ev_call (events w')))"

text \<open>
  The calls that keep nothing beyond the run: an import; loading the environment file,
  configuring the model, reading the documents, wrapping a function as a tool, building
  an agent, reading a line; building an index with no store handed to it (the default
  store is in memory); deriving an engine from an index, and asking it.
\<close>

fun keeps_nothing :: "call \<Rightarrow> bool" where
  "keeps_nothing (Import m ns) = True"
| "keeps_nothing (Call f args kw) =
     (f \<in> set [''load_dotenv'', ''OpenAI'', ''SimpleDirectoryReader'',
                ''FunctionTool.from_defaults'', ''ReActAgent.from_tools'', ''input'']
      \<or> f = ''VectorStoreIndex.from_documents'' \<and> map_of kw ''storage_context'' = None)"
| "keeps_nothing (Method obj m args kw) =
     (m \<in> set [''load_data'', ''as_query_engine'', ''as_chat_engine'', ''query'', ''chat''])"

subsection \<open>What a run did, read off its calls\<close>

text \<open>The values returned by the calls of a given kind, in order.\<close>

definition results_of :: "(call \<Rightarrow> bool) \<Rightarrow> event list \<Rightarrow> pyval list" where
  "results_of P evs =
     concat (map (\<lambda>e. case ev_result e of Inr v \<Rightarrow> if P (ev_call e) then [v] else [] | Inl err \<Rightarrow> []) evs)"

text \<open>A call of one of the methods \<open>ms\<close> on one of the objects \<open>objs\<close>.\<close>

fun method_on :: "pyval list \<Rightarrow> string list \<Rightarrow> call \<Rightarrow> bool" where
  "method_on objs ms (Method obj m args kw) = (obj \<in> set objs \<and> m \<in> set ms)"
| "method_on objs ms (Call f args kw) = False"
| "method_on objs ms (Import m ns) = False"

text \<open>Building a vector index over one of the document lists \<open>docs\<close>.\<close>

fun indexes :: "pyval list \<Rightarrow> call \<Rightarrow> bool" where
  "indexes docs (Call f args kw) =
     (f = ''VectorStoreIndex.from_documents'' \<and> args \<in> set (map (\<lambda>d. [d]) docs))"
| "indexes docs (Method obj m args kw) = False"
| "indexes docs (Import m ns) = False"

text \<open>
  The readers of the directory \<open>pdf/\<close>; the documents loaded by them; the indexes built
  over these documents; the query and chat engines derived from these indexes; the
  queries put to these engines; and all queries and chats of the run.
\<close>

definition pdf_readers :: "event list \<Rightarrow> pyval list" where
  "pdf_readers evs = results_of (reads_dir ''pdf/'') evs"

definition loaded_documents :: "event list \<Rightarrow> pyval list" where
  "loaded_documents evs = results_of (method_on (pdf_readers evs) [''load_data'']) evs"

definition indexes_built :: "event list \<Rightarrow> pyval list" where
  "indexes_built evs = results_of (indexes (loaded_documents evs)) evs"

definition engines :: "event list \<Rightarrow> pyval list" where
  "engines evs = results_of (method_on (indexes_built evs) [''as_query_engine'', ''as_chat_engine'']) evs"

definition rag_queries :: "event list \<Rightarrow> event list" where
  "rag_queries evs = filter (\<lambda>e. method_on (engines evs) [''query'', ''chat''] (ev_call e)) evs"

definition queries :: "event list \<Rightarrow> event list" where
  "queries evs = filter (\<lambda>e. is_query (ev_call e)) evs"

text \<open>
  The store on disk of \<open>04_custom_rag.py\<close>, step by step: the clients of the database
  under \<open>path\<close>; the collections \<open>name\<close> got or created through them; the vector stores
  on these collections; the storage contexts on these vector stores; and the indexes
  built over loaded documents into these storage contexts.
\<close>

definition persistent_clients :: "string \<Rightarrow> event list \<Rightarrow> pyval list" where
  "persistent_clients path evs =
     results_of (\<lambda>c. c = Call ''chromadb.PersistentClient'' [] [(''path'', PStr path)]) evs"

definition collections :: "string \<Rightarrow> string \<Rightarrow> event list \<Rightarrow> pyval list" where
  "collections path name evs =
     results_of (\<lambda>c. c \<in> set (map (\<lambda>db. Method db ''get_or_create_collection'' [PStr name] [])
                                 (persistent_clients path evs))) evs"

definition vector_stores :: "string \<Rightarrow> string \<Rightarrow> event list \<Rightarrow> pyval list" where
  "vector_stores path name evs =
     results_of (\<lambda>c. c \<in> set (map (\<lambda>col. Call ''ChromaVectorStore'' [] [(''chroma_collection'', col)])
                                 (collections path name evs))) evs"

definition storage_contexts :: "string \<Rightarrow> string \<Rightarrow> event list \<Rightarrow> pyval list" where
  "storage_contexts path name evs =
     results_of (\<lambda>c. c \<in> set (map (\<lambda>vs. Call ''StorageContext.from_defaults'' [] [(''vector_store'', vs)])
                                 (vector_stores path name evs))) evs"

definition persisted_indexes :: "string \<Rightarrow> string \<Rightarrow> event list \<Rightarrow> pyval list" where
  "persisted_indexes path name evs =
     results_of (\<lambda>c. indexes (loaded_documents evs) c
                    \<and> kwarg ''storage_context'' c \<in> set (map Some (storage_contexts path name evs))) evs"



subsection \<open>The read loop, as the spec describes it\<close>

definition input_call :: call where
  "input_call = Call ''input'' [PStr ''User: ''] []"

definition chat_call :: "pyval \<Rightarrow> string \<Rightarrow> call" where
  "chat_call chat_engine l = Method chat_engine ''chat'' [PStr l] []"

text \<open>
  One turn of the loop that was answered: the line read, the network requests and the
  response of the chat call on it, and the state of the library after the call, in which
  the response is printed.
\<close>

datatype 'x turn = Turn (turn_line: string) (turn_requests: nat) (turn_response: pyval) (turn_state: 'x)

text \<open>The calls of an answered turn: the read, and the chat call on the line read.\<close>

definition turn_events :: "pyval \<Rightarrow> 'x turn \<Rightarrow> event list" where
  "turn_events chat_engine t =
     [Event input_call 0 (Inr (PStr (turn_line t))),
      Event (chat_call chat_engine (turn_line t)) (turn_requests t) (Inr (turn_response t))]"

text \<open>Its output: the prompt, and one \<open>Agent:\<close> line with the response.\<close>

definition turn_output :: "'x library \<Rightarrow> 'x turn \<Rightarrow> string list" where
  "turn_output L t =
     [''User: '', ''Agent: '' @ py_str L (turn_state t) (turn_response t) @ [CHR 0x0A]]"

text \<open>
  The turns that the library answers when it is sent the lines \<open>ls\<close> one after the
  other, from the state \<open>x\<close>, up to the first chat call that raises.
\<close>

fun chat_turns :: "'x library \<Rightarrow> pyval \<Rightarrow> 'x \<Rightarrow> string list \<Rightarrow> 'x turn list" where
  "chat_turns L chat_engine x [] = []"
| "chat_turns L chat_engine x (l # ls) =
     (case invoke L x (chat_call chat_engine l) of
        (Inr v, n, x') \<Rightarrow> Turn l n v x' # chat_turns L chat_engine x' ls
      | (Inl e, n, x') \<Rightarrow> [])"

definition state_after :: "'x \<Rightarrow> 'x turn list \<Rightarrow> 'x" where
  "state_after x ts = (if ts = [] then x else turn_state (last ts))"

text \<open>
  The loop reads and answers the turns \<open>ts\<close>: their lines are the first lines of standard
  input, none of them is \<open>exit\<close>, and the chat call on each of them returns.
\<close>

definition answers :: "'x library \<Rightarrow> pyval \<Rightarrow> 'x world \<Rightarrow> 'x turn list \<Rightarrow> bool" where
  "answers L chat_engine w ts =
     (stake (length ts) (stdin w) = map (\<lambda>t. Some (turn_line t)) ts
      \<and> ''exit'' \<notin> set (map turn_line ts)
      \<and> chat_turns L chat_engine (ext w) (map turn_line ts) = ts)"

text \<open>
  How the loop ends at the next read, in the library state \<open>x\<close>: at end of input with
  \<open>EOFError\<close>, at the line \<open>exit\<close> by \<open>break\<close>, at another line with the exception of
  the chat call on it; it does not end when that chat call returns. The result is the
  outcome of the loop and the calls of this last, unfinished turn.
\<close>

definition loop_end ::
    "'x library \<Rightarrow> pyval \<Rightarrow> 'x \<Rightarrow> string option \<Rightarrow> ((error + pyval) \<times> event list) option" where
  "loop_end L chat_engine x next_line =
     (case next_line of
        None \<Rightarrow> Some (Inl EOFError, [Event input_call 0 (Inl EOFError)])
      | Some l \<Rightarrow>
          if l = ''exit'' then Some (Inr PNone, [Event input_call 0 (Inr (PStr ''exit''))])
          else (case invoke L x (chat_call chat_engine l) of
                  (Inl e, n, x') \<Rightarrow>
                    Some (Inl e, [Event input_call 0 (Inr (PStr l)),
                                  Event (chat_call chat_engine l) n (Inl e)])
                | (Inr v, n, x') \<Rightarrow> None))"

text \<open>
  A run of the loop from \<open>w\<close> to \<open>w'\<close> with outcome \<open>r\<close>, described from outside: it
  answered the turns \<open>ts\<close> and ended at the next read; its calls are those of the turns
  and of the ending, in this order, and its output is that of the turns and the last
  prompt.
\<close>

definition loop_trace ::
    "'x library \<Rightarrow> pyval \<Rightarrow> 'x world \<Rightarrow> 'x turn list \<Rightarrow> error + pyval \<Rightarrow> 'x world \<Rightarrow> bool" where
  "loop_trace L chat_engine w ts r w' =
     (answers L chat_engine w ts
      \<and> (case loop_end L chat_engine (state_after (ext w) ts) (stdin w !! length ts) of
           None \<Rightarrow> False
         | Some (r', ending) \<Rightarrow>
             r = r' \<and> events w' = events w @ concat (map (turn_events chat_engine) ts) @ ending)
      \<and> stdout w' = stdout w @ concat (map (turn_output L) ts) @ [''User: ''])"



text \<open>
  One run of the loop, as a relation between the state it starts in and how it ends:
  the four ways an iteration goes (end of input, the exit line, a chat call that raises,
  a chat call answered and printed, after which the loop goes on).
\<close>

inductive loop_run :: "'x library \<Rightarrow> pyval \<Rightarrow> 'x world \<Rightarrow> (error + pyval) \<times> 'x world \<Rightarrow> bool"
  for L :: "'x library" and chat_engine :: pyval where
  read_raises:
    "py_input ''User: '' w = (Inl e, w1) \<Longrightarrow> loop_run L chat_engine w (Inl e, w1)"
| exit_line:
    "py_input ''User: '' w = (Inr (PStr ''exit''), w1) \<Longrightarrow> loop_run L chat_engine w (Inr PNone, w1)"
| chat_raises:
    "py_input ''User: '' w = (Inr text_input, w1) \<Longrightarrow> text_input \<noteq> PStr ''exit'' \<Longrightarrow>
     lib_call L (Method chat_engine ''chat'' [text_input] []) w1 = (Inl e, w2) \<Longrightarrow>
     loop_run L chat_engine w (Inl e, w2)"
| answered:
    "py_input ''User: '' w = (Inr text_input, w1) \<Longrightarrow> text_input \<noteq> PStr ''exit'' \<Longrightarrow>
     lib_call L (Method chat_engine ''chat'' [text_input] []) w1 = (Inr response, w2) \<Longrightarrow>
     py_print L (PStr (''Agent: '' @ py_str L (ext w2) response)) w2 = (Inr v, w3) \<Longrightarrow>
     loop_run L chat_engine w3 res \<Longrightarrow>
     loop_run L chat_engine w res"

subsection \<open>Libraries to run the scripts on\<close>

text \<open>
  A library in which every call returns a fresh object and makes no network request; its
  state counts the objects, and every object prints as \<open>answer\<close>.
\<close>

definition ok_lib :: "nat library" where
  "ok_lib = \<lparr>invoke = (\<lambda>x c. (Inr (PRef x), 0, Suc x)), render = (\<lambda>x v. ''answer'')\<rparr>"



text \<open>A library that finds no \<open>pdf/\<close> directory: constructing the reader raises.\<close>

definition no_pdf_lib :: "nat library" where
  "no_pdf_lib =
     \<lparr>invoke = (\<lambda>x c.
        if reads_dir ''pdf/'' c then (Inl (LibraryError ''ValueError: Directory pdf/ does not exist.''), 0, x)
        else (Inr (PRef x), 0, Suc x)),
      render = (\<lambda>x v. ''answer'')\<rparr>"

text \<open>A library whose chat calls fail (the network is down); every other call returns.\<close>

definition offline_lib :: "nat library" where
  "offline_lib =
     \<lparr>invoke = (\<lambda>x c.
        if is_query c then (Inl (LibraryError ''APIConnectionError''), 1, x)
        else (Inr (PRef x), 0, Suc x)),
      render = (\<lambda>x v. ''answer'')\<rparr>"

section \<open>Properties of the arithmetic tools\<close>

lemma float_add_commute: "\<not> (is_nan a \<and> is_nan b) \<Longrightarrow> float_add R a b = float_add R b a"
  by (cases a; cases b) (simp_all add: add.commute)

lemma float_mul_commute: "\<not> (is_nan a \<and> is_nan b) \<Longrightarrow> float_mul R a b = float_mul R b a"
  by (cases a; cases b) (simp_all add: mult.commute)

lemma is_nan_float_add: "is_nan (float_add R a b) = is_nan (float_add R b a)"
  by (cases a; cases b) (simp_all add: add.commute)

lemma is_nan_float_mul: "is_nan (float_mul R a b) = is_nan (float_mul R b a)"
  by (cases a; cases b) (simp_all add: mult.commute)

lemma float_eq_refl: "\<not> is_nan a \<Longrightarrow> float_eq a a"
  by (cases a) simp_all

lemma float_eq_nan: "is_nan a \<Longrightarrow> \<not> float_eq a b \<and> \<not> float_eq b a"
  by (cases a; cases b) simp_all

text \<open>
  C8. The divide tool is an unguarded division: with a divisor other than zero it returns
  the quotient (for finite floats, the real quotient rounded), and with a zero divisor it
  ends in \<open>ZeroDivisionError\<close>, whatever the dividend; the tool has no branch that
  turns the exception into a value.
\<close>

theorem divide_unguarded:
  "(b \<noteq> Finite 0 \<longrightarrow> divide_fn R a b = Inr (float_div R a b))
   \<and> (y \<noteq> 0 \<longrightarrow> divide_fn R (Finite x) (Finite y) = Inr (R (x / y)))
   \<and> divide_fn R a (Finite 0) = Inl ZeroDivisionError"
  by (simp add: divide_fn_def py_truediv_def)

theorem divide_unguarded_witness:
  "divide_fn Finite (Finite 7) (Finite 2) = Inr (Finite (7 / 2))
   \<and> divide_fn Finite PosInf (Finite 0) = Inl ZeroDivisionError"
  using divide_unguarded [of "Finite 2" Finite PosInf 2 7]
  by simp

text \<open>
  C9. The tools multiply, add and subtract return the product, the sum and the difference
  of their two arguments and nothing else (they are functions of their arguments, and
  never raise). Add and multiply are commutative as long as the two arguments are not both
  NaN: the two orders then return the same float, and unless that float is a NaN the two
  results compare equal with \<open>==\<close>. With two NaN arguments each order returns a NaN, its
  first argument, so the two results can differ in sign and payload; and a NaN result
  compares equal to nothing.
\<close>

theorem tools_reference:
  "multiply R a b = Inr (float_mul R a b)
   \<and> add R a b = Inr (float_add R a b)
   \<and> subtract R a b = Inr (float_sub R a b)
   \<and> multiply R (Finite x) (Finite y) = Inr (R (x * y))
   \<and> add R (Finite x) (Finite y) = Inr (R (x + y))
   \<and> subtract R (Finite x) (Finite y) = Inr (R (x - y))
   \<and> (\<not> (is_nan a \<and> is_nan b) \<longrightarrow> add R a b = add R b a \<and> multiply R a b = multiply R b a)
   \<and> is_nan (float_add R a b) = is_nan (float_add R b a)
   \<and> is_nan (float_mul R a b) = is_nan (float_mul R b a)
   \<and> float_eq (float_add R a b) (float_add R b a) = (\<not> is_nan (float_add R a b))
   \<and> float_eq (float_mul R a b) (float_mul R b a) = (\<not> is_nan (float_mul R a b))
   \<and> add R (NaN s p) (NaN t q) = Inr (NaN s p)
   \<and> multiply R (NaN s p) (NaN t q) = Inr (NaN s p)"
proof -
  have "float_eq (float_add R a b) (float_add R b a) = (\<not> is_nan (float_add R a b))"
  proof (cases "is_nan (float_add R a b)")
    case True
    then show ?thesis by (simp add: float_eq_nan)
  next
    case False
    then have "\<not> (is_nan a \<and> is_nan b)" by (cases a; cases b) simp_all
    then have "float_add R b a = float_add R a b" using float_add_commute [of a b R] by simp
    with False show ?thesis by (simp add: float_eq_refl)
  qed
  moreover have "float_eq (float_mul R a b) (float_mul R b a) = (\<not> is_nan (float_mul R a b))"
  proof (cases "is_nan (float_mul R a b)")
    case True
    then show ?thesis by (simp add: float_eq_nan)
  next
    case False
    then have "\<not> (is_nan a \<and> is_nan b)" by (cases a; cases b) simp_all
    then have "float_mul R b a = float_mul R a b" using float_mul_commute [of a b R] by simp
    with False show ?thesis by (simp add: float_eq_refl)
  qed
  moreover have "\<not> (is_nan a \<and> is_nan b) \<longrightarrow>
      float_add R a b = float_add R b a \<and> float_mul R a b = float_mul R b a"
    using float_add_commute [of a b R] float_mul_commute [of a b R] by blast
  ultimately show ?thesis
    using is_nan_float_add [of R a b] is_nan_float_mul [of R a b]
    by (simp add: multiply_def add_def subtract_def)
qed

theorem tools_reference_witness:
  "multiply Finite (Finite 2) (Finite 4) = Inr (Finite 8)
   \<and> add Finite (Finite 20) (Finite 2) = Inr (Finite 22)
   \<and> subtract Finite (Finite 5) (Finite 1) = Inr (Finite 4)
   \<and> add Finite (Finite 2) (Finite 20) = add Finite (Finite 20) (Finite 2)
   \<and> multiply Finite PosInf (NaN False 1) = multiply Finite (NaN False 1) PosInf"
  using tools_reference [of Finite "Finite 2" "Finite 4" 2 4]
    tools_reference [of Finite "Finite 20" "Finite 2" 20 2]
    tools_reference [of Finite "Finite 5" "Finite 1" 5 1]
    tools_reference [of Finite PosInf "NaN False 1"]
  by (simp add: multiply_def add_def)

theorem tools_nan_order_counterexample:
  "add Finite (NaN False 1) (NaN True 2) = Inr (NaN False 1)
   \<and> add Finite (NaN True 2) (NaN False 1) = Inr (NaN True 2)
   \<and> add Finite (NaN False 1) (NaN True 2) \<noteq> add Finite (NaN True 2) (NaN False 1)
   \<and> multiply Finite (NaN False 1) (NaN True 2) \<noteq> multiply Finite (NaN True 2) (NaN False 1)
   \<and> \<not> float_eq (float_add Finite (NaN False 1) (Finite 1)) (float_add Finite (Finite 1) (NaN False 1))"
  by (simp add: add_def multiply_def)

section \<open>The read loop of 03_rag_chatbot.py\<close>

lemma loop_run_if_returns: "chat_loop L ce w = Some res \<Longrightarrow> loop_run L ce w res"
  apply (erule chat_loop.raw_induct [where P = loop_run, rotated])
  apply (auto split: prod.splits sum.splits if_splits simp: py_print_def intro: loop_run.intros)
  done


lemma input_InlE:
  assumes "py_input p w = (Inl e, w1)"
  obtains "shd (stdin w) = None" and "e = EOFError"
    and "events w1 = events w @ [Event (Call ''input'' [PStr p] []) 0 (Inl EOFError)]"
    and "stdout w1 = stdout w @ [p]" and "stdin w1 = stdin w" and "ext w1 = ext w"
  using assms by (auto simp: py_input_def Let_def split: option.splits)

lemma input_InrE:
  assumes "py_input p w = (Inr t, w1)"
  obtains l where "shd (stdin w) = Some l" and "t = PStr l"
    and "events w1 = events w @ [Event (Call ''input'' [PStr p] []) 0 (Inr (PStr l))]"
    and "stdout w1 = stdout w @ [p]" and "stdin w1 = stl (stdin w)" and "ext w1 = ext w"
  using assms by (auto simp: py_input_def Let_def split: option.splits)

lemma call_InrE:
  assumes "lib_call L c w = (Inr v, w')"
  obtains n where "events w' = events w @ [Event c n (Inr v)]"
    and "stdout w' = stdout w" and "stdin w' = stdin w"
  using assms
  by (auto simp: lib_call_def split: prod.splits sum.splits)

lemma call_InlE:
  assumes "lib_call L c w = (Inl e, w')"
  obtains n where "events w' = events w @ [Event c n (Inl e)]"
    and "stdout w' = stdout w" and "stdin w' = stdin w"
  using assms
  by (auto simp: lib_call_def split: prod.splits sum.splits)

lemma print_InrE:
  assumes "py_print L a w = (Inr v, w')"
  obtains "events w' = events w"
    and "stdout w' = stdout w @ [py_str L (ext w') a @ [CHR 0x0A]]" and "stdin w' = stdin w"
    and "ext w' = ext w"
  using assms
  by (auto simp: py_print_def)








subsection \<open>The loop and its description agree\<close>

lemma call_Inr_invokeE:
  assumes "lib_call L c w = (Inr v, w')"
  obtains n where "invoke L (ext w) c = (Inr v, n, ext w')"
    and "events w' = events w @ [Event c n (Inr v)]"
    and "stdout w' = stdout w" and "stdin w' = stdin w"
  using assms
  by (auto simp: lib_call_def split: prod.splits sum.splits)

lemma call_Inl_invokeE:
  assumes "lib_call L c w = (Inl e, w')"
  obtains n where "invoke L (ext w) c = (Inl e, n, ext w')"
    and "events w' = events w @ [Event c n (Inl e)]"
    and "stdout w' = stdout w" and "stdin w' = stdin w"
  using assms
  by (auto simp: lib_call_def split: prod.splits sum.splits)


lemma state_after_Cons:
  "state_after x (t # ts) = state_after (turn_state t) ts"
  by (simp add: state_after_def)

lemma loop_trace_answered:
  assumes inp: "py_input ''User: '' w = (Inr (PStr l), w1)" and ne: "l \<noteq> ''exit''"
    and chat: "lib_call L (Method ce ''chat'' [PStr l] []) w1 = (Inr response, w2)"
    and prt: "py_print L (PStr (''Agent: '' @ py_str L (ext w2) response)) w2 = (Inr v, w3)"
    and ts: "loop_trace L ce w3 ts r w'"
  obtains n where "invoke L (ext w) (chat_call ce l) = (Inr response, n, ext w2)"
    and "loop_trace L ce w (Turn l n response (ext w2) # ts) r w'"
proof -
  from inp have l: "shd (stdin w) = Some l"
    and w1: "events w1 = events w @ [Event input_call 0 (Inr (PStr l))]"
      "stdout w1 = stdout w @ [''User: '']" "stdin w1 = stl (stdin w)" "ext w1 = ext w"
    by (auto elim!: input_InrE simp: input_call_def)
  from chat obtain n where
    inv: "invoke L (ext w) (chat_call ce l) = (Inr response, n, ext w2)"
    and w2: "events w2 = events w1 @ [Event (chat_call ce l) n (Inr response)]"
      "stdout w2 = stdout w1" "stdin w2 = stdin w1"
    by (auto elim!: call_Inr_invokeE simp: chat_call_def w1(4))
  from prt have
    w3: "events w3 = events w2" "stdin w3 = stdin w2" "ext w3 = ext w2"
      "stdout w3 = stdout w2 @ [''Agent: '' @ py_str L (ext w2) response @ [CHR 0x0A]]"
    by (auto elim!: print_InrE simp: py_str_def)
  let ?t = "Turn l n response (ext w2)"
  have a: "answers L ce w (?t # ts)"
    using ts l ne inv w1 w2 w3 by (simp add: loop_trace_def answers_def)
  have "loop_trace L ce w (?t # ts) r w'"
    unfolding loop_trace_def
  proof (intro conjI)
    show "answers L ce w (?t # ts)" by (rule a)
    show "case loop_end L ce (state_after (ext w) (?t # ts)) (stdin w !! length (?t # ts)) of
        None \<Rightarrow> False
      | Some (r', ending) \<Rightarrow> r = r' \<and>
          events w' = events w @ concat (map (turn_events ce) (?t # ts)) @ ending"
      using ts w1 w2 w3
      by (auto simp: loop_trace_def state_after_Cons turn_events_def split: option.splits prod.splits)
    show "stdout w' = stdout w @ concat (map (turn_output L) (?t # ts)) @ [''User: '']"
      using ts w1 w2 w3 by (simp add: loop_trace_def turn_output_def)
  qed
  with inv show ?thesis by (rule that)
qed

lemma loop_run_trace:
  assumes "loop_run L ce w res"
  shows "\<exists>ts. loop_trace L ce w ts (fst res) (snd res)"
  using assms
proof induction
  case (read_raises w e w1)
  then have "loop_trace L ce w [] (Inl e) w1"
    by (auto elim!: input_InlE
        simp: loop_trace_def answers_def loop_end_def state_after_def input_call_def)
  then show ?case by auto
next
  case (exit_line w w1)
  then have "loop_trace L ce w [] (Inr PNone) w1"
    by (auto elim!: input_InrE
        simp: loop_trace_def answers_def loop_end_def state_after_def input_call_def)
  then show ?case by auto
next
  case (chat_raises w text_input w1 e w2)
  then have "loop_trace L ce w [] (Inl e) w2"
    by (auto elim!: input_InrE call_Inl_invokeE
        simp: loop_trace_def answers_def loop_end_def state_after_def input_call_def chat_call_def)
  then show ?case by auto
next
  case (answered w text_input w1 response w2 v w3 res)
  from answered.IH obtain ts where ts: "loop_trace L ce w3 ts (fst res) (snd res)" ..
  from answered.hyps(1) obtain l where l: "text_input = PStr l"
    by (auto elim!: input_InrE)
  with answered.hyps(2) have ne: "l \<noteq> ''exit''" by simp
  from loop_trace_answered [OF answered.hyps(1) [unfolded l] ne answered.hyps(3) [unfolded l]
      answered.hyps(4) ts]
  show ?case by blast
qed




lemma loop_end_Inr:
  "loop_end L ce x nl = Some (Inr v, ending) \<Longrightarrow> nl = Some ''exit'' \<and> v = PNone"
  by (auto simp: loop_end_def split: option.splits if_splits prod.splits sum.splits)

lemma loop_end_exit:
  "loop_end L ce x (Some ''exit'') = Some (Inr PNone, [Event input_call 0 (Inr (PStr ''exit''))])"
  by (simp add: loop_end_def)









section \<open>Properties of the read loop\<close>







section \<open>Properties of the scripts\<close>

lemma uncaught_call: "uncaught (lib_call L c)"
  by (auto simp: uncaught_def lib_call_def propagated_def raised_def split: prod.splits sum.splits)

lemma list_all_butlast: "list_all P xs \<Longrightarrow> list_all P (butlast xs)"
  by (auto simp: list_all_iff dest: in_set_butlastD)

lemma uncaught_print: "uncaught (py_print L a)"
  by (simp add: uncaught_def py_print_def propagated_def list_all_butlast)

lemma uncaught_bind:
  assumes "uncaught m" and "\<And>v. uncaught (f v)"
  shows "uncaught (py_bind m f)"
  unfolding uncaught_def
proof (intro allI impI)
  fix w r w'
  assume ok: "list_all (\<lambda>e. \<not> raised e) (events w)" and run: "py_bind m f w = (r, w')"
  obtain r1 w1 where m: "m w = (r1, w1)" by (cases "m w")
  with assms(1) ok have p: "propagated (events w1) r1" by (simp add: uncaught_def)
  show "propagated (events w') r"
  proof (cases r1)
    case (Inl e)
    with run m p show ?thesis by (simp add: py_bind_def)
  next
    case (Inr v)
    with p have "list_all (\<lambda>e. \<not> raised e) (events w1)" by (simp add: propagated_def)
    moreover from run m Inr have "f v w1 = (r, w')" by (simp add: py_bind_def)
    ultimately show ?thesis using assms(2) [of v] by (simp add: uncaught_def)
  qed
qed

lemma script01_uncaught: "uncaught (script01 L)"
  unfolding script01_def by (intro uncaught_bind uncaught_call uncaught_print)

lemma script02_uncaught: "uncaught (script02 L)"
  unfolding script02_def by (intro uncaught_bind uncaught_call uncaught_print)

lemma script03_setup_uncaught: "uncaught (script03_setup L)"
  unfolding script03_setup_def by (intro uncaught_bind uncaught_call uncaught_print)

lemma script04_uncaught: "uncaught (script04 L)"
  unfolding script04_def by (intro uncaught_bind uncaught_call uncaught_print)

lemma script05_uncaught: "uncaught (script05 L)"
  unfolding script05_def by (intro uncaught_bind uncaught_call uncaught_print)

lemma uncaught_start:
  assumes "uncaught m" and "m (start inp x) = (r, w)"
  shows "propagated (events w) r"
  using assms(1) [unfolded uncaught_def, rule_format, of "start inp x" r w] assms(2)
  by (simp add: start_def)

lemma loop_run_propagated:
  assumes "loop_run L ce w res" and "list_all (\<lambda>e. \<not> raised e) (events w)"
  shows "propagated (events (snd res)) (fst res)"
  using assms
proof induction
  case (read_raises w e w1)
  then show ?case by (auto elim!: input_InlE simp: propagated_def raised_def butlast_append)
next
  case (exit_line w w1)
  then show ?case by (auto elim!: input_InrE simp: propagated_def raised_def butlast_append)
next
  case (chat_raises w text_input w1 e w2)
  then show ?case by (auto elim!: input_InrE call_InlE simp: propagated_def raised_def butlast_append)
next
  case (answered w text_input w1 response w2 v w3 res)
  have "list_all (\<lambda>e. \<not> raised e) (events w3)"
    using answered(1,3,4,7) by (auto elim!: input_InrE call_InrE print_InrE simp: raised_def)
  with answered show ?case by blast
qed

text \<open>
  C6. No script handles an error. In every run that returns, no call before the last one
  raised, and the run ended with an exception exactly when its last call raised it: an
  exception of the library or of the environment (also \<open>EOFError\<close> from \<open>input\<close>) ends
  the script at the call that raised it, as the script's own outcome; nothing is caught,
  retried or recovered.
\<close>

theorem exceptions_propagate:
  assumes "run_script s L inp x = Some (r, w)"
  shows "propagated (events w) r"
proof (cases s)
  case S01
  with assms have "script01 L (start inp x) = (r, w)" by simp
  then show ?thesis by (rule uncaught_start [OF script01_uncaught])
next
  case S02
  with assms have "script02 L (start inp x) = (r, w)" by simp
  then show ?thesis by (rule uncaught_start [OF script02_uncaught])
next
  case S03
  obtain r1 w1 where st: "script03_setup L (start inp x) = (r1, w1)"
    by (cases "script03_setup L (start inp x)")
  have p1: "propagated (events w1) r1"
    by (rule uncaught_start [OF script03_setup_uncaught st])
  show ?thesis
  proof (cases r1)
    case (Inl e)
    with assms S03 st p1 show ?thesis by (simp add: script03_def)
  next
    case (Inr chat_engine)
    with assms S03 st have "chat_loop L chat_engine w1 = Some (r, w)"
      by (simp add: script03_def)
    then have "loop_run L chat_engine w1 (r, w)" by (rule loop_run_if_returns)
    moreover from p1 Inr have "list_all (\<lambda>e. \<not> raised e) (events w1)"
      by (simp add: propagated_def)
    ultimately show ?thesis using loop_run_propagated by fastforce
  qed
next
  case S04
  with assms have "script04 L (start inp x) = (r, w)" by simp
  then show ?thesis by (rule uncaught_start [OF script04_uncaught])
next
  case S05
  with assms have "script05 L (start inp x) = (r, w)" by simp
  then show ?thesis by (rule uncaught_start [OF script05_uncaught])
qed

theorem exceptions_propagate_witness:
  "outcome_of (run_script S01 no_pdf_lib (sconst None) 0)
     = Some (Inl (LibraryError ''ValueError: Directory pdf/ does not exist.''))
   \<and> propagated (events_of (run_script S01 no_pdf_lib (sconst None) 0))
         (Inl (LibraryError ''ValueError: Directory pdf/ does not exist.''))
   \<and> outcome_of (run_script S03 offline_lib (Some ''hello'' ## sconst None) 0)
     = Some (Inl (LibraryError ''APIConnectionError''))
   \<and> propagated (events_of (run_script S03 offline_lib (Some ''hello'' ## sconst None) 0))
         (Inl (LibraryError ''APIConnectionError''))"
proof -
  have "\<exists>w. run_script S01 no_pdf_lib (sconst None) 0
      = Some (Inl (LibraryError ''ValueError: Directory pdf/ does not exist.''), w)"
    by (simp add: script01_def py_bind_def lib_call_def no_pdf_lib_def start_def)
  then obtain w where a: "run_script S01 no_pdf_lib (sconst None) 0
      = Some (Inl (LibraryError ''ValueError: Directory pdf/ does not exist.''), w)" ..
  have "\<exists>w. run_script S03 offline_lib (Some ''hello'' ## sconst None) 0
      = Some (Inl (LibraryError ''APIConnectionError''), w)"
    by (simp add: script03_def script03_setup_def py_bind_def lib_call_def offline_lib_def
        start_def chat_loop.simps py_input_def)
  then obtain w' where b: "run_script S03 offline_lib (Some ''hello'' ## sconst None) 0
      = Some (Inl (LibraryError ''APIConnectionError''), w')" ..
  from exceptions_propagate [OF a] exceptions_propagate [OF b] a b show ?thesis
    by (simp add: outcome_of_def events_of_def)
qed

subsection \<open>Runs that reach the end of a script\<close>

lemma bind_call_InrE:
  assumes "py_bind (lib_call L c) f w = (Inr v, w')"
  obtains u n w1 where "f u w1 = (Inr v, w')" and "events w1 = events w @ [Event c n (Inr u)]"
    and "stdout w1 = stdout w" and "stdin w1 = stdin w"
  using assms
  by (auto simp: py_bind_def lib_call_def split: prod.splits sum.splits)

lemma bind_print_InrE:
  assumes "py_bind (py_print L a) f w = (Inr v, w')"
  obtains w1 where "f PNone w1 = (Inr v, w')" and "events w1 = events w"
    and "stdout w1 = stdout w @ [py_str L (ext w) a @ [CHR 0x0A]]" and "ext w1 = ext w"
  using assms
  by (auto simp: py_bind_def py_print_def split: prod.splits sum.splits)

lemma script01_completed:
  assumes "script01 L w = (Inr v, w')"
  shows "\<exists>n1 n2 n3 n4 n5 n6 n7 n8 n9 n10 u1 u2 u3 u4 llm reader documents index query_engine response.
    events w' = events w @
      [Event (Import ''llama_index.core'' [''VectorStoreIndex'', ''SimpleDirectoryReader'']) n1 (Inr u1),
       Event (Import ''dotenv'' [''load_dotenv'']) n2 (Inr u2),
       Event (Import ''llama_index.llms.openai'' [''OpenAI'']) n3 (Inr u3),
       Event (Call ''load_dotenv'' [] []) n4 (Inr u4),
       Event (Call ''OpenAI'' [] [(''model'', PStr ''gpt-3.5-turbo'')]) n5 (Inr llm),
       Event (Call ''SimpleDirectoryReader'' [PStr ''pdf/''] []) n6 (Inr reader),
       Event (Method reader ''load_data'' [] []) n7 (Inr documents),
       Event (Call ''VectorStoreIndex.from_documents'' [documents] []) n8 (Inr index),
       Event (Method index ''as_query_engine'' [] []) n9 (Inr query_engine),
       Event (Method query_engine ''query'' [PStr question] []) n10 (Inr response)]
    \<and> stdout w' = stdout w @ [py_str L (ext w') response @ [CHR 0x0A]]"
  using assms unfolding script01_def
  apply (elim bind_call_InrE print_InrE)
  apply simp
  done

lemma script02_completed:
  assumes "script02 L w = (Inr v, w')"
  shows "\<exists>n1 n2 n3 n4 n5 n6 n7 n8 n9 n10 n11 u1 u2 u3 u4 u5 llm reader data index chat_engine response.
    events w' = events w @
      [Event (Import ''llama_index.core'' [''VectorStoreIndex'', ''SimpleDirectoryReader'']) n1 (Inr u1),
       Event (Import ''llama_index.llms.openai'' [''OpenAI'']) n2 (Inr u2),
       Event (Import ''dotenv'' [''load_dotenv'']) n3 (Inr u3),
       Event (Import ''os'' []) n4 (Inr u4),
       Event (Call ''load_dotenv'' [] []) n5 (Inr u5),
       Event (Call ''OpenAI'' [] [(''model'', PStr ''gpt-3.5-turbo'')]) n6 (Inr llm),
       Event (Call ''SimpleDirectoryReader'' [PStr ''pdf/''] []) n7 (Inr reader),
       Event (Method reader ''load_data'' [] []) n8 (Inr data),
       Event (Call ''VectorStoreIndex.from_documents'' [data] []) n9 (Inr index),
       Event (Method index ''as_chat_engine'' []
          [(''chat_mode'', PStr ''best''), (''llm'', llm), (''verbose'', PBool True)]) n10 (Inr chat_engine),
       Event (Method chat_engine ''chat'' [PStr question] []) n11 (Inr response)]
    \<and> stdout w' = stdout w @ [py_str L (ext w') response @ [CHR 0x0A]]"
  using assms unfolding script02_def
  apply (elim bind_call_InrE print_InrE)
  apply simp
  done

lemma script03_setup_completed:
  assumes "script03_setup L w = (Inr chat_engine, w')"
  shows "\<exists>n1 n2 n3 n4 n5 n6 n7 n8 n9 n10 n11 u1 u2 u3 u4 u5 u6 llm reader data index.
    events w' = events w @
      [Event (Import ''llama_index.core'' [''VectorStoreIndex'', ''SimpleDirectoryReader'']) n1 (Inr u1),
       Event (Import ''llama_index.llms.openai'' [''OpenAI'']) n2 (Inr u2),
       Event (Import ''llama_index.agent.openai'' [''OpenAIAgent'']) n3 (Inr u3),
       Event (Import ''dotenv'' [''load_dotenv'']) n4 (Inr u4),
       Event (Import ''os'' []) n5 (Inr u5),
       Event (Call ''load_dotenv'' [] []) n6 (Inr u6),
       Event (Call ''OpenAI'' [] [(''model'', PStr ''gpt-3.5-turbo''), (''temperature'', PInt 0)]) n7 (Inr llm),
       Event (Call ''SimpleDirectoryReader'' [] [(''input_dir'', PStr ''pdf/'')]) n8 (Inr reader),
       Event (Method reader ''load_data'' [] []) n9 (Inr data),
       Event (Call ''VectorStoreIndex.from_documents'' [data] []) n10 (Inr index),
       Event (Method index ''as_chat_engine'' []
          [(''chat_mode'', PStr ''condense_question''), (''verbose'', PBool True)]) n11 (Inr chat_engine)]
    \<and> stdout w' = stdout w \<and> stdin w' = stdin w"
  using assms unfolding script03_setup_def
  apply (elim bind_call_InrE call_InrE)
  apply simp
  done

lemma script04_completed:
  assumes "script04 L w = (Inr v, w')"
  shows "\<exists>n1 n2 n3 n4 n5 n6 n7 n8 n9 n10 n11 n12 n13 n14 n15 n16 n17 u1 u2 u3 u4 u5 u6 u7
      reader documents db chroma_collection vector_store storage_context llm index query_engine response.
    events w' = events w @
      [Event (Import ''os'' []) n1 (Inr u1),
       Event (Import ''dotenv'' [''load_dotenv'']) n2 (Inr u2),
       Event (Import ''llama_index.core''
          [''SimpleDirectoryReader'', ''VectorStoreIndex'', ''StorageContext'']) n3 (Inr u3),
       Event (Import ''llama_index.vector_stores.chroma'' [''ChromaVectorStore'']) n4 (Inr u4),
       Event (Import ''llama_index.llms.openai'' [''OpenAI'']) n5 (Inr u5),
       Event (Import ''chromadb'' []) n6 (Inr u6),
       Event (Call ''load_dotenv'' [] []) n7 (Inr u7),
       Event (Call ''SimpleDirectoryReader'' [PStr ''pdf/''] []) n8 (Inr reader),
       Event (Method reader ''load_data'' [] []) n9 (Inr documents),
       Event (Call ''chromadb.PersistentClient'' [] [(''path'', PStr ''./chroma_db'')]) n10 (Inr db),
       Event (Method db ''get_or_create_collection'' [PStr ''quickstart''] []) n11 (Inr chroma_collection),
       Event (Call ''ChromaVectorStore'' [] [(''chroma_collection'', chroma_collection)]) n12 (Inr vector_store),
       Event (Call ''StorageContext.from_defaults'' [] [(''vector_store'', vector_store)]) n13 (Inr storage_context),
       Event (Call ''OpenAI'' []
          [(''model'', PStr ''gpt-3.5-turbo''), (''temperature'', PFloatLit ''0.1''),
           (''max_tokens'', PInt 512)]) n14 (Inr llm),
       Event (Call ''VectorStoreIndex.from_documents'' [documents]
          [(''storage_context'', storage_context), (''llm'', llm)]) n15 (Inr index),
       Event (Method index ''as_query_engine'' [] [(''llm'', llm)]) n16 (Inr query_engine),
       Event (Method query_engine ''query'' [PStr question] []) n17 (Inr response)]
    \<and> stdout w' = stdout w @ [''***********'' @ [CHR 0x0A], py_str L (ext w') response @ [CHR 0x0A]]"
  using assms unfolding script04_def
  apply (elim bind_call_InrE bind_print_InrE print_InrE)
  apply (simp add: py_str_def)
  done

lemma script05_completed:
  assumes "script05 L w = (Inr v, w')"
  shows "\<exists>n1 n2 n3 n4 n5 n6 n7 n8 n9 n10 n11 n12 n13 n14 u1 u2 u3 u4 u5 u6 u7
      llm multiply_tool add_tool sub_tool divide_tool agent response.
    events w' = events w @
      [Event (Import ''os'' []) n1 (Inr u1),
       Event (Import ''llama_index.core'' []) n2 (Inr u2),
       Event (Import ''llama_index.core.agent'' [''ReActAgent'']) n3 (Inr u3),
       Event (Import ''llama_index.llms.openai'' [''OpenAI'']) n4 (Inr u4),
       Event (Import ''llama_index.core.tools'' [''FunctionTool'']) n5 (Inr u5),
       Event (Import ''dotenv'' [''load_dotenv'']) n6 (Inr u6),
       Event (Call ''load_dotenv'' [] []) n7 (Inr u7),
       Event (Call ''OpenAI'' [] [(''model'', PStr ''gpt-3.5-turbo''), (''temperature'', PInt 0)]) n8 (Inr llm),
       Event (Call ''FunctionTool.from_defaults'' [] [(''fn'', PFun ''multiply'')]) n9 (Inr multiply_tool),
       Event (Call ''FunctionTool.from_defaults'' [] [(''fn'', PFun ''add'')]) n10 (Inr add_tool),
       Event (Call ''FunctionTool.from_defaults'' [] [(''fn'', PFun ''subtract'')]) n11 (Inr sub_tool),
       Event (Call ''FunctionTool.from_defaults'' [] [(''fn'', PFun ''divide'')]) n12 (Inr divide_tool),
       Event (Call ''ReActAgent.from_tools''
          [PList [multiply_tool, add_tool, sub_tool, divide_tool]]
          [(''llm'', llm), (''verbose'', PBool True)]) n13 (Inr agent),
       Event (Method agent ''chat'' [PStr agent_question] []) n14 (Inr response)]
    \<and> stdout w' = stdout w @ [py_str L (ext w') response @ [CHR 0x0A]]"
  using assms unfolding script05_def
  apply (elim bind_call_InrE print_InrE)
  apply simp
  done

lemma script01_facts:
  assumes "script01 L (start inp x) = (Inr v, w)"
  shows "length (pdf_readers (events w)) = 1 \<and> length (loaded_documents (events w)) = 1
     \<and> length (indexes_built (events w)) = 1 \<and> length (engines (events w)) = 1
     \<and> rag_queries (events w) = queries (events w)
     \<and> (\<exists>c n response. queries (events w) = [Event c n (Inr response)]
           \<and> last (events w) = Event c n (Inr response)
           \<and> stdout w = [py_str L (ext w) response @ [CHR 0x0A]])"
proof -
  from script01_completed [OF assms] obtain n1 n2 n3 n4 n5 n6 n7 n8 n9 n10 u1 u2 u3 u4 llm reader documents index query_engine response where
    ev: "events w = 
      [Event (Import ''llama_index.core'' [''VectorStoreIndex'', ''SimpleDirectoryReader'']) n1 (Inr u1),
       Event (Import ''dotenv'' [''load_dotenv'']) n2 (Inr u2),
       Event (Import ''llama_index.llms.openai'' [''OpenAI'']) n3 (Inr u3),
       Event (Call ''load_dotenv'' [] []) n4 (Inr u4),
       Event (Call ''OpenAI'' [] [(''model'', PStr ''gpt-3.5-turbo'')]) n5 (Inr llm),
       Event (Call ''SimpleDirectoryReader'' [PStr ''pdf/''] []) n6 (Inr reader),
       Event (Method reader ''load_data'' [] []) n7 (Inr documents),
       Event (Call ''VectorStoreIndex.from_documents'' [documents] []) n8 (Inr index),
       Event (Method index ''as_query_engine'' [] []) n9 (Inr query_engine),
       Event (Method query_engine ''query'' [PStr question] []) n10 (Inr response)]"
    and out: "stdout w = [py_str L (ext w) response @ [CHR 0x0A]]"
    by (auto simp: start_def)
  have r: "pdf_readers (events w) = [reader]"
    by (simp add: pdf_readers_def results_of_def ev)
  have d: "loaded_documents (events w) = [documents]"
    unfolding loaded_documents_def r by (simp add: results_of_def ev)
  have i: "indexes_built (events w) = [index]"
    unfolding indexes_built_def d by (simp add: results_of_def ev)
  have e: "engines (events w) = [query_engine]"
    unfolding engines_def i by (simp add: results_of_def ev)
  have q: "queries (events w) = [last (events w)]"
    by (simp add: queries_def ev)
  have rq: "rag_queries (events w) = [last (events w)]"
    unfolding rag_queries_def e by (simp add: ev)
  from r d i e q rq out show ?thesis by (simp add: ev)
qed

lemma script02_facts:
  assumes "script02 L (start inp x) = (Inr v, w)"
  shows "length (pdf_readers (events w)) = 1 \<and> length (loaded_documents (events w)) = 1
     \<and> length (indexes_built (events w)) = 1 \<and> length (engines (events w)) = 1
     \<and> rag_queries (events w) = queries (events w)
     \<and> (\<exists>c n response. queries (events w) = [Event c n (Inr response)]
           \<and> last (events w) = Event c n (Inr response)
           \<and> stdout w = [py_str L (ext w) response @ [CHR 0x0A]])"
proof -
  from script02_completed [OF assms] obtain n1 n2 n3 n4 n5 n6 n7 n8 n9 n10 n11 u1 u2 u3 u4 u5 llm reader data index chat_engine response where
    ev: "events w = 
      [Event (Import ''llama_index.core'' [''VectorStoreIndex'', ''SimpleDirectoryReader'']) n1 (Inr u1),
       Event (Import ''llama_index.llms.openai'' [''OpenAI'']) n2 (Inr u2),
       Event (Import ''dotenv'' [''load_dotenv'']) n3 (Inr u3),
       Event (Import ''os'' []) n4 (Inr u4),
       Event (Call ''load_dotenv'' [] []) n5 (Inr u5),
       Event (Call ''OpenAI'' [] [(''model'', PStr ''gpt-3.5-turbo'')]) n6 (Inr llm),
       Event (Call ''SimpleDirectoryReader'' [PStr ''pdf/''] []) n7 (Inr reader),
       Event (Method reader ''load_data'' [] []) n8 (Inr data),
       Event (Call ''VectorStoreIndex.from_documents'' [data] []) n9 (Inr index),
       Event (Method index ''as_chat_engine'' []
          [(''chat_mode'', PStr ''best''), (''llm'', llm), (''verbose'', PBool True)]) n10 (Inr chat_engine),
       Event (Method chat_engine ''chat'' [PStr question] []) n11 (Inr response)]"
    and out: "stdout w = [py_str L (ext w) response @ [CHR 0x0A]]"
    by (auto simp: start_def)
  have r: "pdf_readers (events w) = [reader]"
    by (simp add: pdf_readers_def results_of_def ev)
  have d: "loaded_documents (events w) = [data]"
    unfolding loaded_documents_def r by (simp add: results_of_def ev)
  have i: "indexes_built (events w) = [index]"
    unfolding indexes_built_def d by (simp add: results_of_def ev)
  have e: "engines (events w) = [chat_engine]"
    unfolding engines_def i by (simp add: results_of_def ev)
  have q: "queries (events w) = [last (events w)]"
    by (simp add: queries_def ev)
  have rq: "rag_queries (events w) = [last (events w)]"
    unfolding rag_queries_def e by (simp add: ev)
  from r d i e q rq out show ?thesis by (simp add: ev)
qed

lemma script04_facts:
  assumes "script04 L (start inp x) = (Inr v, w)"
  shows "length (pdf_readers (events w)) = 1 \<and> length (loaded_documents (events w)) = 1
     \<and> length (indexes_built (events w)) = 1 \<and> length (engines (events w)) = 1
     \<and> rag_queries (events w) = queries (events w)
     \<and> (\<exists>c n response. queries (events w) = [Event c n (Inr response)]
           \<and> last (events w) = Event c n (Inr response)
           \<and> stdout w = [''***********'' @ [CHR 0x0A], py_str L (ext w) response @ [CHR 0x0A]])
     \<and> length (persistent_clients ''./chroma_db'' (events w)) = 1
     \<and> length (collections ''./chroma_db'' ''quickstart'' (events w)) = 1
     \<and> length (vector_stores ''./chroma_db'' ''quickstart'' (events w)) = 1
     \<and> length (storage_contexts ''./chroma_db'' ''quickstart'' (events w)) = 1
     \<and> persisted_indexes ''./chroma_db'' ''quickstart'' (events w) = indexes_built (events w)
     \<and> filter persisting (map ev_call (events w))
         = [Call ''chromadb.PersistentClient'' [] [(''path'', PStr ''./chroma_db'')]]"
proof -
  from script04_completed [OF assms] obtain n1 n2 n3 n4 n5 n6 n7 n8 n9 n10 n11 n12 n13 n14 n15 n16 n17 u1 u2 u3 u4 u5 u6 u7 reader documents db chroma_collection vector_store storage_context llm index query_engine response where
    ev: "events w = 
      [Event (Import ''os'' []) n1 (Inr u1),
       Event (Import ''dotenv'' [''load_dotenv'']) n2 (Inr u2),
       Event (Import ''llama_index.core''
          [''SimpleDirectoryReader'', ''VectorStoreIndex'', ''StorageContext'']) n3 (Inr u3),
       Event (Import ''llama_index.vector_stores.chroma'' [''ChromaVectorStore'']) n4 (Inr u4),
       Event (Import ''llama_index.llms.openai'' [''OpenAI'']) n5 (Inr u5),
       Event (Import ''chromadb'' []) n6 (Inr u6),
       Event (Call ''load_dotenv'' [] []) n7 (Inr u7),
       Event (Call ''SimpleDirectoryReader'' [PStr ''pdf/''] []) n8 (Inr reader),
       Event (Method reader ''load_data'' [] []) n9 (Inr documents),
       Event (Call ''chromadb.PersistentClient'' [] [(''path'', PStr ''./chroma_db'')]) n10 (Inr db),
       Event (Method db ''get_or_create_collection'' [PStr ''quickstart''] []) n11 (Inr chroma_collection),
       Event (Call ''ChromaVectorStore'' [] [(''chroma_collection'', chroma_collection)]) n12 (Inr vector_store),
       Event (Call ''StorageContext.from_defaults'' [] [(''vector_store'', vector_store)]) n13 (Inr storage_context),
       Event (Call ''OpenAI'' []
          [(''model'', PStr ''gpt-3.5-turbo''), (''temperature'', PFloatLit ''0.1''),
           (''max_tokens'', PInt 512)]) n14 (Inr llm),
       Event (Call ''VectorStoreIndex.from_documents'' [documents]
          [(''storage_context'', storage_context), (''llm'', llm)]) n15 (Inr index),
       Event (Method index ''as_query_engine'' [] [(''llm'', llm)]) n16 (Inr query_engine),
       Event (Method query_engine ''query'' [PStr question] []) n17 (Inr response)]"
    and out: "stdout w = [''***********'' @ [CHR 0x0A], py_str L (ext w) response @ [CHR 0x0A]]"
    by (auto simp: start_def)
  have r: "pdf_readers (events w) = [reader]"
    by (simp add: pdf_readers_def results_of_def ev)
  have d: "loaded_documents (events w) = [documents]"
    unfolding loaded_documents_def r by (simp add: results_of_def ev)
  have i: "indexes_built (events w) = [index]"
    unfolding indexes_built_def d by (simp add: results_of_def ev)
  have e: "engines (events w) = [query_engine]"
    unfolding engines_def i by (simp add: results_of_def ev)
  have q: "queries (events w) = [last (events w)]"
    by (simp add: queries_def ev)
  have rq: "rag_queries (events w) = [last (events w)]"
    unfolding rag_queries_def e by (simp add: ev)
  have pc: "persistent_clients ''./chroma_db'' (events w) = [db]"
    by (simp add: persistent_clients_def results_of_def ev)
  have co: "collections ''./chroma_db'' ''quickstart'' (events w) = [chroma_collection]"
    unfolding collections_def pc by (simp add: results_of_def ev)
  have vs: "vector_stores ''./chroma_db'' ''quickstart'' (events w) = [vector_store]"
    unfolding vector_stores_def co by (simp add: results_of_def ev)
  have sc: "storage_contexts ''./chroma_db'' ''quickstart'' (events w) = [storage_context]"
    unfolding storage_contexts_def vs by (simp add: results_of_def ev)
  have pi: "persisted_indexes ''./chroma_db'' ''quickstart'' (events w) = [index]"
    unfolding persisted_indexes_def d sc by (simp add: results_of_def ev)
  have ps: "filter persisting (map ev_call (events w))
      = [Call ''chromadb.PersistentClient'' [] [(''path'', PStr ''./chroma_db'')]]"
    by (simp add: ev)
  from r d i e q rq out show ?thesis using pc co vs sc pi ps by (simp add: ev)
qed

lemma script05_facts:
  assumes "script05 L (start inp x) = (Inr v, w)"
  shows "pdf_readers (events w) = [] \<and> loaded_documents (events w) = []
     \<and> indexes_built (events w) = [] \<and> engines (events w) = [] \<and> rag_queries (events w) = []
     \<and> filter (\<lambda>c. is_load_data c \<or> builds_index c) (map ev_call (events w)) = []
     \<and> (\<exists>c n response. queries (events w) = [Event c n (Inr response)]
           \<and> last (events w) = Event c n (Inr response)
           \<and> stdout w = [py_str L (ext w) response @ [CHR 0x0A]])"
proof -
  from script05_completed [OF assms] obtain n1 n2 n3 n4 n5 n6 n7 n8 n9 n10 n11 n12 n13 n14 u1 u2 u3 u4 u5 u6 u7 llm multiply_tool add_tool sub_tool divide_tool agent response where
    ev: "events w = 
      [Event (Import ''os'' []) n1 (Inr u1),
       Event (Import ''llama_index.core'' []) n2 (Inr u2),
       Event (Import ''llama_index.core.agent'' [''ReActAgent'']) n3 (Inr u3),
       Event (Import ''llama_index.llms.openai'' [''OpenAI'']) n4 (Inr u4),
       Event (Import ''llama_index.core.tools'' [''FunctionTool'']) n5 (Inr u5),
       Event (Import ''dotenv'' [''load_dotenv'']) n6 (Inr u6),
       Event (Call ''load_dotenv'' [] []) n7 (Inr u7),
       Event (Call ''OpenAI'' [] [(''model'', PStr ''gpt-3.5-turbo''), (''temperature'', PInt 0)]) n8 (Inr llm),
       Event (Call ''FunctionTool.from_defaults'' [] [(''fn'', PFun ''multiply'')]) n9 (Inr multiply_tool),
       Event (Call ''FunctionTool.from_defaults'' [] [(''fn'', PFun ''add'')]) n10 (Inr add_tool),
       Event (Call ''FunctionTool.from_defaults'' [] [(''fn'', PFun ''subtract'')]) n11 (Inr sub_tool),
       Event (Call ''FunctionTool.from_defaults'' [] [(''fn'', PFun ''divide'')]) n12 (Inr divide_tool),
       Event (Call ''ReActAgent.from_tools''
          [PList [multiply_tool, add_tool, sub_tool, divide_tool]]
          [(''llm'', llm), (''verbose'', PBool True)]) n13 (Inr agent),
       Event (Method agent ''chat'' [PStr agent_question] []) n14 (Inr response)]"
    and out: "stdout w = [py_str L (ext w) response @ [CHR 0x0A]]"
    by (auto simp: start_def)
  have r: "pdf_readers (events w) = []"
    by (simp add: pdf_readers_def results_of_def ev)
  have d: "loaded_documents (events w) = []"
    unfolding loaded_documents_def r by (simp add: results_of_def ev)
  have i: "indexes_built (events w) = []"
    unfolding indexes_built_def d by (simp add: results_of_def ev)
  have e: "engines (events w) = []"
    unfolding engines_def i by (simp add: results_of_def ev)
  have q: "queries (events w) = [last (events w)]"
    by (simp add: queries_def ev)
  have rq: "rag_queries (events w) = []"
    unfolding rag_queries_def e by (simp add: ev)
  have n: "filter (\<lambda>c. is_load_data c \<or> builds_index c) (map ev_call (events w)) = []"
    by (simp add: ev)
  from r d i e q rq n out show ?thesis by (simp add: ev)
qed

lemma results_of_append: "results_of P (xs @ ys) = results_of P xs @ results_of P ys"
  by (simp add: results_of_def)

lemma results_of_loop:
  assumes "\<not> P input_call" and "\<And>l. \<not> P (chat_call ce l)"
  shows "results_of P (concat (map (turn_events ce) ts)) = []"
  using assms by (induction ts) (simp_all add: results_of_def turn_events_def split: sum.splits)

lemma filter_loop:
  assumes "\<not> P input_call" and "\<And>l. P (chat_call ce l)"
  shows "filter (\<lambda>e. P (ev_call e)) (concat (map (turn_events ce) ts))
     = map (\<lambda>t. Event (chat_call ce (turn_line t)) (turn_requests t) (Inr (turn_response t))) ts"
  using assms by (induction ts) (simp_all add: turn_events_def)

lemma script03_facts:
  assumes "script03 L (start inp x) = Some (Inr v, w)"
  shows "\<exists>ce w1 ts. script03_setup L (start inp x) = (Inr ce, w1) \<and> stdin w1 = inp \<and> stdout w1 = []
     \<and> loop_trace L ce w1 ts (Inr PNone) w
     \<and> length (pdf_readers (events w)) = 1 \<and> length (loaded_documents (events w)) = 1
     \<and> length (indexes_built (events w)) = 1 \<and> engines (events w) = [ce]
     \<and> rag_queries (events w) = queries (events w)
     \<and> queries (events w)
         = map (\<lambda>t. Event (chat_call ce (turn_line t)) (turn_requests t) (Inr (turn_response t))) ts
     \<and> stdout w = concat (map (turn_output L) ts) @ [''User: '']"
proof -
  obtain r1 w1 where st: "script03_setup L (start inp x) = (r1, w1)"
    by (cases "script03_setup L (start inp x)")
  with assms obtain ce where ce: "r1 = Inr ce" and loop: "chat_loop L ce w1 = Some (Inr v, w)"
    by (cases r1) (simp_all add: script03_def)
  note st = st [unfolded ce]
  from script03_setup_completed [OF st] obtain n1 n2 n3 n4 n5 n6 n7 n8 n9 n10 n11 u1 u2 u3 u4 u5 u6 llm reader data index where
    e0: "events w1 =
      [Event (Import ''llama_index.core'' [''VectorStoreIndex'', ''SimpleDirectoryReader'']) n1 (Inr u1),
       Event (Import ''llama_index.llms.openai'' [''OpenAI'']) n2 (Inr u2),
       Event (Import ''llama_index.agent.openai'' [''OpenAIAgent'']) n3 (Inr u3),
       Event (Import ''dotenv'' [''load_dotenv'']) n4 (Inr u4),
       Event (Import ''os'' []) n5 (Inr u5),
       Event (Call ''load_dotenv'' [] []) n6 (Inr u6),
       Event (Call ''OpenAI'' [] [(''model'', PStr ''gpt-3.5-turbo''), (''temperature'', PInt 0)]) n7 (Inr llm),
       Event (Call ''SimpleDirectoryReader'' [] [(''input_dir'', PStr ''pdf/'')]) n8 (Inr reader),
       Event (Method reader ''load_data'' [] []) n9 (Inr data),
       Event (Call ''VectorStoreIndex.from_documents'' [data] []) n10 (Inr index),
       Event (Method index ''as_chat_engine'' []
          [(''chat_mode'', PStr ''condense_question''), (''verbose'', PBool True)]) n11 (Inr ce)]"
    and w1: "stdout w1 = []" "stdin w1 = inp"
    by (auto simp: start_def)
  from loop_run_trace [OF loop_run_if_returns [OF loop]] obtain ts where
    tr: "loop_trace L ce w1 ts (Inr v) w" by auto
  then obtain ending where
    le: "loop_end L ce (state_after (ext w1) ts) (stdin w1 !! length ts) = Some (Inr v, ending)"
    and ev': "events w = events w1 @ concat (map (turn_events ce) ts) @ ending"
    and out: "stdout w = stdout w1 @ concat (map (turn_output L) ts) @ [''User: '']"
    by (auto simp: loop_trace_def split: option.splits)
  from loop_end_Inr [OF le] have nl: "stdin w1 !! length ts = Some ''exit''" and v: "v = PNone"
    by simp_all
  from le nl have ending: "ending = [Event input_call 0 (Inr (PStr ''exit''))]"
    by (simp add: loop_end_exit)
  note ev = ev' [unfolded ending]
  have r: "pdf_readers (events w) = [reader]"
    unfolding pdf_readers_def ev results_of_append
    by (subst results_of_loop) (simp_all add: input_call_def chat_call_def results_of_def e0)
  have d: "loaded_documents (events w) = [data]"
    unfolding loaded_documents_def r unfolding ev results_of_append
    by (subst results_of_loop) (simp_all add: input_call_def chat_call_def results_of_def e0)
  have i: "indexes_built (events w) = [index]"
    unfolding indexes_built_def d unfolding ev results_of_append
    by (subst results_of_loop) (simp_all add: input_call_def chat_call_def results_of_def e0)
  have e: "engines (events w) = [ce]"
    unfolding engines_def i unfolding ev results_of_append
    by (subst results_of_loop) (simp_all add: input_call_def chat_call_def results_of_def e0)
  have q: "queries (events w)
      = map (\<lambda>t. Event (chat_call ce (turn_line t)) (turn_requests t) (Inr (turn_response t))) ts"
    unfolding queries_def ev filter_append
    by (subst filter_loop) (simp_all add: input_call_def chat_call_def e0)
  have rqs: "rag_queries (events w)
      = map (\<lambda>t. Event (chat_call ce (turn_line t)) (turn_requests t) (Inr (turn_response t))) ts"
    unfolding rag_queries_def e unfolding ev filter_append
    by (subst filter_loop) (simp_all add: input_call_def chat_call_def e0)
  from st w1 tr v r d i e q rqs out show ?thesis by (intro exI [of _ ce] exI [of _ w1] exI [of _ ts]) simp
qed

subsection \<open>The calls of every run\<close>

lemma calls_only_call: "Q c \<Longrightarrow> calls_only Q (lib_call L c)"
  by (auto simp: calls_only_def lib_call_def split: prod.splits)

lemma calls_only_print: "calls_only Q (py_print L a)"
  by (simp add: calls_only_def py_print_def)

lemma calls_only_bind:
  assumes "calls_only Q m" and "\<And>v. calls_only Q (f v)"
  shows "calls_only Q (py_bind m f)"
  unfolding calls_only_def
proof (intro allI impI)
  fix w r w'
  assume ok: "list_all Q (map ev_call (events w))" and run: "py_bind m f w = (r, w')"
  obtain r1 w1 where m: "m w = (r1, w1)" by (cases "m w")
  with assms(1) ok have p: "list_all Q (map ev_call (events w1))" by (simp add: calls_only_def)
  show "list_all Q (map ev_call (events w'))"
  proof (cases r1)
    case (Inl e)
    with run m p show ?thesis by (simp add: py_bind_def)
  next
    case (Inr v)
    with run m have "f v w1 = (r, w')" by (simp add: py_bind_def)
    with p assms(2) [of v] show ?thesis by (simp add: calls_only_def)
  qed
qed

lemma calls_only_start:
  assumes "calls_only Q m" and "m (start inp x) = (r, w)"
  shows "list_all Q (map ev_call (events w))"
  using assms(1) [unfolded calls_only_def, rule_format, of "start inp x" r w] assms(2)
  by (simp add: start_def)

lemma script01_keeps_nothing: "calls_only keeps_nothing (script01 L)"
  unfolding script01_def by (intro calls_only_bind calls_only_call calls_only_print) simp_all

lemma script02_keeps_nothing: "calls_only keeps_nothing (script02 L)"
  unfolding script02_def by (intro calls_only_bind calls_only_call calls_only_print) simp_all

lemma script03_setup_keeps_nothing: "calls_only keeps_nothing (script03_setup L)"
  unfolding script03_setup_def by (intro calls_only_bind calls_only_call calls_only_print) simp_all

lemma script05_keeps_nothing: "calls_only keeps_nothing (script05 L)"
  unfolding script05_def by (intro calls_only_bind calls_only_call calls_only_print) simp_all

lemma loop_run_keeps_nothing:
  assumes "loop_run L ce w res" and "list_all keeps_nothing (map ev_call (events w))"
  shows "list_all keeps_nothing (map ev_call (events (snd res)))"
  using assms
proof induction
  case (read_raises w e w1)
  then show ?case by (auto elim!: input_InlE)
next
  case (exit_line w w1)
  then show ?case by (auto elim!: input_InrE)
next
  case (chat_raises w text_input w1 e w2)
  then show ?case by (auto elim!: input_InrE call_InlE)
next
  case (answered w text_input w1 response w2 v w3 res)
  have "list_all keeps_nothing (map ev_call (events w3))"
    using answered(1,3,4,7) by (auto elim!: input_InrE call_InrE print_InrE)
  with answered show ?case by blast
qed

lemma keeps_nothing_not_persisting: "keeps_nothing c \<Longrightarrow> \<not> persisting c \<and> \<not> stores_index c"
  by (cases c) (auto simp: stores_index_def)

lemma quiet_runs:
  assumes "run_script s L inp x = Some (r, w)" and "s \<noteq> S04"
  shows "list_all keeps_nothing (map ev_call (events w))"
proof (cases s)
  case S01
  with assms have "script01 L (start inp x) = (r, w)" by simp
  then show ?thesis by (rule calls_only_start [OF script01_keeps_nothing])
next
  case S02
  with assms have "script02 L (start inp x) = (r, w)" by simp
  then show ?thesis by (rule calls_only_start [OF script02_keeps_nothing])
next
  case S03
  obtain r1 w1 where st: "script03_setup L (start inp x) = (r1, w1)"
    by (cases "script03_setup L (start inp x)")
  have p1: "list_all keeps_nothing (map ev_call (events w1))"
    by (rule calls_only_start [OF script03_setup_keeps_nothing st])
  show ?thesis
  proof (cases r1)
    case (Inl e)
    with assms S03 st p1 show ?thesis by (simp add: script03_def)
  next
    case (Inr chat_engine)
    with assms S03 st have "chat_loop L chat_engine w1 = Some (r, w)"
      by (simp add: script03_def)
    then have "loop_run L chat_engine w1 (r, w)" by (rule loop_run_if_returns)
    from loop_run_keeps_nothing [OF this p1] show ?thesis by simp
  qed
next
  case S04
  with assms show ?thesis by simp
next
  case S05
  with assms have "script05 L (start inp x) = (r, w)" by simp
  then show ?thesis by (rule calls_only_start [OF script05_keeps_nothing])
qed

subsection \<open>Termination of the scripts\<close>






subsection \<open>What the scripts do\<close>


lemma ok_run04:
  "\<exists>w. run_script S04 ok_lib (sconst None) 0 = Some (Inr PNone, w)"
  by (simp add: script04_def py_bind_def lib_call_def ok_lib_def py_print_def start_def)

lemma ok_run02:
  "\<exists>w. run_script S02 ok_lib (sconst None) 0 = Some (Inr PNone, w)"
  by (simp add: script02_def py_bind_def lib_call_def ok_lib_def py_print_def start_def)




lemma keeps_nothing_list:
  "list_all keeps_nothing cs \<Longrightarrow> \<not> list_ex persisting cs \<and> \<not> list_ex stores_index cs"
  by (auto simp: list_all_iff list_ex_iff dest: keeps_nothing_not_persisting)

lemma list_ex_filter: "list_ex P xs = (filter P xs \<noteq> [])"
  by (auto simp: list_ex_iff filter_empty_conv)

text \<open>
  C3. One script does leave state behind. Every run of the scripts 01, 02, 03 and 05,
  however it ends, makes only calls that keep nothing beyond the run: it opens no store
  on disk and hands no store to the index it builds. A run of the script 04 that reaches
  its end opens the database under \<open>./chroma_db\<close>, and builds its index into the
  collection \<open>quickstart\<close> of that database, which stays on disk after the run.
\<close>

theorem keeps_nothing_but_04:
  assumes "run_script s L inp x = Some (r, w)"
  shows "(s \<noteq> S04 \<longrightarrow> list_all keeps_nothing (map ev_call (events w)))
     \<and> (s = S04 \<and> \<not> isl r \<longrightarrow>
          filter persisting (map ev_call (events w))
            = [Call ''chromadb.PersistentClient'' [] [(''path'', PStr ''./chroma_db'')]]
          \<and> length (persisted_indexes ''./chroma_db'' ''quickstart'' (events w)) = 1
          \<and> \<not> list_all keeps_nothing (map ev_call (events w)))"
proof -
  have quiet: "s \<noteq> S04 \<longrightarrow> list_all keeps_nothing (map ev_call (events w))"
    using quiet_runs [OF assms] by blast
  have kept: "filter persisting (map ev_call (events w))
            = [Call ''chromadb.PersistentClient'' [] [(''path'', PStr ''./chroma_db'')]]
          \<and> length (persisted_indexes ''./chroma_db'' ''quickstart'' (events w)) = 1
          \<and> \<not> list_all keeps_nothing (map ev_call (events w))"
    if a: "s = S04 \<and> \<not> isl r"
  proof -
    from a obtain v where "r = Inr v" by (cases r) auto
    with assms a have run: "script04 L (start inp x) = (Inr v, w)" by simp
    from script04_facts [OF run]
    have p: "filter persisting (map ev_call (events w))
        = [Call ''chromadb.PersistentClient'' [] [(''path'', PStr ''./chroma_db'')]]"
      and i: "persisted_indexes ''./chroma_db'' ''quickstart'' (events w) = indexes_built (events w)"
        "length (indexes_built (events w)) = 1"
      by simp_all
    from p have "list_ex persisting (map ev_call (events w))" by (simp add: list_ex_filter)
    with keeps_nothing_list have "\<not> list_all keeps_nothing (map ev_call (events w))" by blast
    with p i show ?thesis by simp
  qed
  from quiet kept show ?thesis by blast
qed

theorem keeps_nothing_but_04_witness:
  "\<exists>w. run_script S02 ok_lib (sconst None) 0 = Some (Inr PNone, w)
     \<and> list_all keeps_nothing (map ev_call (events w))"
proof -
  from ok_run02 obtain w where run: "run_script S02 ok_lib (sconst None) 0 = Some (Inr PNone, w)" ..
  from keeps_nothing_but_04 [OF run] run show ?thesis by simp
qed

theorem script04_persists_counterexample:
  "completed (run_script S04 ok_lib (sconst None) 0)
   \<and> Call ''chromadb.PersistentClient'' [] [(''path'', PStr ''./chroma_db'')]
       \<in> set (calls_made (run_script S04 ok_lib (sconst None) 0))
   \<and> list_ex stores_index (calls_made (run_script S04 ok_lib (sconst None) 0))"
  by (simp add: completed_def events_of_def calls_made_def stores_index_def
      script04_def py_bind_def lib_call_def ok_lib_def py_print_def start_def)

text \<open>
  C4. Exactly one script keeps a vector collection on disk. A run that reaches the end
  of its script opens a store on disk exactly when the script is 04: that run opens one
  database client under \<open>./chroma_db\<close>, gets or creates the collection \<open>quickstart\<close>
  through it, wraps the collection in a vector store and the vector store in a storage
  context, and builds its one index over the loaded documents into that storage context.
  The runs of the other four scripts make only calls that keep nothing: the scripts 01,
  02 and 03 build their one index with no store handed to it, in memory, and the script
  05 builds no index at all.
\<close>

theorem only_script04_persists:
  assumes "run_script s L inp x = Some (Inr v, w)"
  shows "list_ex persisting (map ev_call (events w)) = (s = S04)
     \<and> (s = S04 \<longrightarrow>
          filter persisting (map ev_call (events w))
            = [Call ''chromadb.PersistentClient'' [] [(''path'', PStr ''./chroma_db'')]]
          \<and> length (persistent_clients ''./chroma_db'' (events w)) = 1
          \<and> length (collections ''./chroma_db'' ''quickstart'' (events w)) = 1
          \<and> length (vector_stores ''./chroma_db'' ''quickstart'' (events w)) = 1
          \<and> length (storage_contexts ''./chroma_db'' ''quickstart'' (events w)) = 1
          \<and> length (persisted_indexes ''./chroma_db'' ''quickstart'' (events w)) = 1
          \<and> persisted_indexes ''./chroma_db'' ''quickstart'' (events w) = indexes_built (events w))
     \<and> (s \<noteq> S04 \<longrightarrow> list_all keeps_nothing (map ev_call (events w))
          \<and> \<not> list_ex stores_index (map ev_call (events w)))
     \<and> (s = S01 \<or> s = S02 \<or> s = S03 \<longrightarrow> length (indexes_built (events w)) = 1)
     \<and> (s = S05 \<longrightarrow> indexes_built (events w) = []
          \<and> \<not> list_ex builds_index (map ev_call (events w)))"
proof (cases "s = S04")
  case True
  with assms have "script04 L (start inp x) = (Inr v, w)" by simp
  from script04_facts [OF this] True show ?thesis by (simp add: list_ex_filter)
next
  case False
  from quiet_runs [OF assms False] have k: "list_all keeps_nothing (map ev_call (events w))" .
  note n = keeps_nothing_list [OF k]
  show ?thesis
  proof (cases s)
    case S01
    with assms have "script01 L (start inp x) = (Inr v, w)" by simp
    from script01_facts [OF this] S01 k n show ?thesis by simp
  next
    case S02
    with assms have "script02 L (start inp x) = (Inr v, w)" by simp
    from script02_facts [OF this] S02 k n show ?thesis by simp
  next
    case S03
    with assms have "script03 L (start inp x) = Some (Inr v, w)" by simp
    from script03_facts [OF this] S03 k n show ?thesis by auto
  next
    case S04
    with False show ?thesis by simp
  next
    case S05
    with assms have "script05 L (start inp x) = (Inr v, w)" by simp
    from script05_facts [OF this]
    have "indexes_built (events w) = []"
      and "filter (\<lambda>c. is_load_data c \<or> builds_index c) (map ev_call (events w)) = []"
      by simp_all
    then have "indexes_built (events w) = [] \<and> \<not> list_ex builds_index (map ev_call (events w))"
      by (auto simp: list_ex_iff filter_empty_conv)
    with S05 k n show ?thesis by simp
  qed
qed

theorem only_script04_persists_witness:
  "\<exists>w. run_script S04 ok_lib (sconst None) 0 = Some (Inr PNone, w)
     \<and> list_ex persisting (map ev_call (events w))
     \<and> length (persisted_indexes ''./chroma_db'' ''quickstart'' (events w)) = 1"
proof -
  from ok_run04 obtain w where run: "run_script S04 ok_lib (sconst None) 0 = Some (Inr PNone, w)" ..
  from only_script04_persists [OF run] run show ?thesis by blast
qed

theorem agent_builds_no_index_counterexample:
  "completed (run_script S05 ok_lib (sconst None) 0)
   \<and> indexes_built (events_of (run_script S05 ok_lib (sconst None) 0)) = []
   \<and> filter builds_index (calls_made (run_script S05 ok_lib (sconst None) 0)) = []"
  by (simp add: completed_def events_of_def calls_made_def indexes_built_def results_of_def
      script05_def py_bind_def lib_call_def ok_lib_def py_print_def start_def)







end
